theory Spec2Isabelle
  imports Complex_Main "HOL-Library.AList"
begin

text \<open>
  A PDF service: an Express application that hands posted HTML to a headless Chromium
  (Playwright) and answers with the printed PDF. The repository holds three versions of
  its one source file: \<open>src/server.js\<close> (the "debug build"),
  \<open>src/unnamed/part_000\<close> (\<open>/healthz\<close> and \<open>/pdf\<close> only, the render written inside
  the handler) and \<open>src/unnamed/part_001\<close> (the "diagnostic + robust" build, with the
  style overrides). Each is modelled as it is written. The browser, the HTTP layer and
  the body parser are parameters; a request is run to the reply of its handler and the
  trace of the calls made on the browser.
\<close>

section \<open>Values\<close>

text \<open>
  The request body is what the JSON body parser leaves in \<open>req.body\<close>. A JavaScript
  value that can come out of a JSON text is one of the six shapes below; the value
  \<open>undefined\<close> (an absent property, an absent body) is \<open>None\<close> of \<open>json option\<close>.
  An object is the list of its properties in insertion order; a later binding of a key
  stands for the value the key finally holds.
\<close>

datatype json =
    JNull
  | JBool bool
  | JNum real
  | JStr string
  | JArr "json list"
  | JObj "(string \<times> json) list"

text \<open>JavaScript truthiness, as \<open>!v\<close>, \<open>v || w\<close> and \<open>if (v)\<close> read it.\<close>

fun truthy :: "json \<Rightarrow> bool" where
  "truthy JNull = False"
| "truthy (JBool b) = b"
| "truthy (JNum n) = (n \<noteq> 0)"
| "truthy (JStr s) = (s \<noteq> [])"
| "truthy (JArr xs) = True"
| "truthy (JObj ps) = True"

definition truthy_u :: "json option \<Rightarrow> bool" where
  "truthy_u v = (case v of None \<Rightarrow> False | Some j \<Rightarrow> truthy j)"

fun typeof :: "json option \<Rightarrow> string" where
  "typeof None = ''undefined''"
| "typeof (Some JNull) = ''object''"
| "typeof (Some (JBool b)) = ''boolean''"
| "typeof (Some (JNum n)) = ''number''"
| "typeof (Some (JStr s)) = ''string''"
| "typeof (Some (JArr xs)) = ''object''"
| "typeof (Some (JObj ps)) = ''object''"

text \<open>
  Reading one of the properties the handlers destructure (\<open>html\<close>, \<open>baseURL\<close>,
  \<open>format\<close>, \<open>margin\<close>, \<open>filename\<close>, \<open>forceSystemFonts\<close>): only an object can hold
  one of them; on every other value the read gives \<open>undefined\<close>.
\<close>

fun field :: "json \<Rightarrow> string \<Rightarrow> json option" where
  "field (JObj ps) k = map_of (rev ps) k"
| "field j k = None"

text \<open>A destructuring default \<open>{ k = d }\<close> applies to \<open>undefined\<close> only, not to \<open>null\<close>.\<close>

definition defaulted :: "json \<Rightarrow> json option \<Rightarrow> json" where
  "defaulted d v = (case v of None \<Rightarrow> d | Some j \<Rightarrow> j)"

text \<open>\<open>v || undefined\<close>\<close>

definition or_undefined :: "json option \<Rightarrow> json option" where
  "or_undefined v = (if truthy_u v then v else None)"

text \<open>\<open>req.body || {}\<close>\<close>

definition body_or_empty :: "json option \<Rightarrow> json" where
  "body_or_empty v = (case v of None \<Rightarrow> JObj [] | Some j \<Rightarrow> if truthy j then j else JObj [])"

text \<open>The string a value is known to be once \<open>typeof v === "string"\<close> has been checked.\<close>

definition text_of :: "json option \<Rightarrow> string" where
  "text_of v = (case v of Some (JStr s) \<Rightarrow> s | _ \<Rightarrow> [])"

subsection \<open>Conversion to a string\<close>

fun digit_char :: "nat \<Rightarrow> char" where
  "digit_char n = char_of (48 + n)"

fun string_of_nat :: "nat \<Rightarrow> string" where
  "string_of_nat n = (if n < 10 then [digit_char n] else string_of_nat (n div 10) @ [digit_char (n mod 10)])"

declare string_of_nat.simps [simp del]

fun join_comma :: "string list \<Rightarrow> string" where
  "join_comma [] = []"
| "join_comma [s] = s"
| "join_comma (s # t # ss) = s @ '','' @ join_comma (t # ss)"

text \<open>
  What a template literal \<open>`${v}`\<close> makes of a value; \<open>None\<close> is the TypeError of a value
  that has no primitive form. \<open>ns\<close> prints a number (the runtime's \<open>Number::toString\<close>).
  An array joins its elements with commas, \<open>null\<close> printing as the empty string; an
  object prints as \<open>[object Object]\<close>, unless a property of its own named \<open>toString\<close>
  hides the inherited method: no JSON value is callable, so the conversion throws.
\<close>

fun js_string :: "(real \<Rightarrow> string) \<Rightarrow> json \<Rightarrow> string option" where
  "js_string ns JNull = Some ''null''"
| "js_string ns (JBool b) = Some (if b then ''true'' else ''false'')"
| "js_string ns (JNum n) = Some (ns n)"
| "js_string ns (JStr s) = Some s"
| "js_string ns (JArr xs) =
     (let parts = map (\<lambda>x. if x = JNull then Some [] else js_string ns x) xs
      in if None \<in> set parts then None else Some (join_comma (map the parts)))"
| "js_string ns (JObj ps) =
     (if ''toString'' \<in> fst ` set ps then None else Some ''[object Object]'')"

text \<open>
  Object spread \<open>{ ...base, ...v }\<close>: the own enumerable properties of \<open>v\<close>, in order,
  are written over \<open>base\<close>. \<open>null\<close>, booleans and numbers have none; a string has its
  characters and an array its elements, under their indices. The result is read as a
  property map (\<open>map_of\<close>): a key already there keeps its place and takes the new
  value, a new key is added.
\<close>

fun indexed :: "nat \<Rightarrow> 'a list \<Rightarrow> (string \<times> 'a) list" where
  "indexed i [] = []"
| "indexed i (x # xs) = (string_of_nat i, x) # indexed (Suc i) xs"

fun own_props :: "json \<Rightarrow> (string \<times> json) list" where
  "own_props (JObj ps) = ps"
| "own_props (JArr xs) = indexed 0 xs"
| "own_props (JStr s) = indexed 0 (map (\<lambda>c. JStr [c]) s)"
| "own_props j = []"

definition spread :: "(string \<times> json) list \<Rightarrow> json \<Rightarrow> (string \<times> json) list" where
  "spread base v = fold (\<lambda>(k, x) acc. AList.update k x acc) (own_props v) base"

section \<open>The runtime\<close>

text \<open>
  A thrown value, as the handlers read it in \<open>String(err?.message ?? err)\<close>:
  \<open>message\<close> is the printed \<open>message\<close> property when the value has one that is neither
  \<open>null\<close> nor \<open>undefined\<close>, and \<open>shown\<close> is the printed value itself.
\<close>

datatype exn = Exn (message: "string option") (shown: string)

definition details_of :: "exn \<Rightarrow> string" where
  "details_of e = (case message e of Some m \<Rightarrow> m | None \<Rightarrow> shown e)"

definition type_error :: exn where
  "type_error = Exn (Some ''Cannot convert object to primitive value'')
                    ''TypeError: Cannot convert object to primitive value''"

text \<open>The calls the service makes on the browser engine (Playwright).\<close>

record pdf_options =
  pdf_format :: json
  printBackground :: bool
  preferCSSPageSize :: bool
  pdf_margin :: "(string \<times> json) list"
  displayHeaderFooter :: bool

datatype action =
    Launch "string list"
  | NewPage "json option"
  | OnEvent string
  | EmulateMedia string
  | AddStyleTag string
  | SetContent string string nat
  | EvaluateHandle string
  | Pdf pdf_options
  | Screenshot bool string
  | Close

text \<open>
  An event is a call with what came back: \<open>Inl\<close> the value thrown (the promise
  rejected), \<open>Inr\<close> the bytes returned (empty for a call whose result is not data).
\<close>

type_synonym event = "action \<times> (exn + string)"

text \<open>
  Everything outside the repository's files is a parameter:
  \<^item> \<open>browser\<close> answers a call, given the calls of this request so far and their answers;
  \<^item> \<open>header_check name value\<close> is the HTTP layer's validation in \<open>res.setHeader\<close>:
    \<open>Some e\<close> when it throws \<open>e\<close> and leaves the header unset;
  \<^item> \<open>json_parser limit raw\<close> is the body parser \<open>express.json({ limit })\<close> run on the
    raw request: \<open>Inl e\<close> when it passes the error \<open>e\<close> on, \<open>Inr b\<close> when it leaves
    \<open>b\<close> in \<open>req.body\<close>;
  \<^item> \<open>num_str\<close> prints a number and \<open>base64\<close> encodes bytes.
\<close>

record 'r env =
  browser :: "event list \<Rightarrow> action \<Rightarrow> exn + string"
  header_check :: "string \<Rightarrow> string \<Rightarrow> exn option"
  json_parser :: "string \<Rightarrow> 'r \<Rightarrow> exn + json option"
  num_str :: "real \<Rightarrow> string"
  base64 :: "string \<Rightarrow> string"

text \<open>
  A piece of asynchronous code that may throw: it extends the request's trace of
  browser calls and returns a value or the thrown one.
\<close>

type_synonym 'a prog = "event list \<Rightarrow> (exn + 'a) \<times> event list"

definition call :: "'r env \<Rightarrow> action \<Rightarrow> string prog" where
  "call env a tr = (browser env tr a, tr @ [(a, browser env tr a)])"

text \<open>\<open>await m; f\<close>: a throw in \<open>m\<close> skips \<open>f\<close>.\<close>

definition and_then :: "'a prog \<Rightarrow> ('a \<Rightarrow> 'b prog) \<Rightarrow> 'b prog" where
  "and_then m f tr = (case m tr of (Inl e, tr') \<Rightarrow> (Inl e, tr') | (Inr v, tr') \<Rightarrow> f v tr')"

text \<open>\<open>try { await m } catch (_) {}\<close>\<close>

definition ignoring :: "string prog \<Rightarrow> string prog" where
  "ignoring m tr = (case m tr of (Inl e, tr') \<Rightarrow> (Inr [], tr') | (Inr v, tr') \<Rightarrow> (Inr v, tr'))"

text \<open>
  \<open>let browser; try { browser = await launch; work } finally { if (browser) await browser.close() }\<close>:
  \<open>browser\<close> stays \<open>undefined\<close> exactly when the launch throws, and then nothing is
  closed; otherwise \<open>close\<close> runs after \<open>work\<close> whatever its end, and a throw of
  \<open>close\<close> replaces the outcome of \<open>work\<close>.
\<close>

definition with_browser :: "string prog \<Rightarrow> 'a prog \<Rightarrow> string prog \<Rightarrow> 'a prog" where
  "with_browser launch work close tr =
     (case launch tr of
        (Inl e, tr1) \<Rightarrow> (Inl e, tr1)
      | (Inr b, tr1) \<Rightarrow>
          (case work tr1 of
             (r, tr2) \<Rightarrow>
               (case close tr2 of
                  (Inl e, tr3) \<Rightarrow> (Inl e, tr3)
                | (Inr u, tr3) \<Rightarrow> (r, tr3))))"

section \<open>The response\<close>

text \<open>
  The response object \<open>res\<close> as the handlers leave it: the status, the headers they
  set with \<open>setHeader\<close> (those the framework adds on sending are not recorded) and
  the body handed to \<open>send\<close> or \<open>json\<close>.
\<close>

datatype content = Empty | Text string | Bytes string | Json json

record response =
  status :: nat
  headers :: "(string \<times> string) list"
  content :: content

definition new_res :: response where
  "new_res = \<lparr>status = 200, headers = [], content = Empty\<rparr>"

text \<open>\<open>res.setHeader(name, value)\<close>: the thrown value, if any, and the response object after.\<close>

definition setHeader :: "'r env \<Rightarrow> string \<Rightarrow> string \<Rightarrow> response \<Rightarrow> exn option \<times> response" where
  "setHeader env name v res =
     (case header_check env name v of
        Some e \<Rightarrow> (Some e, res)
      | None \<Rightarrow> (None, res\<lparr>headers := AList.update name v (headers res)\<rparr>))"

text \<open>\<open>res.status(code).send(body)\<close> and \<open>res.status(code).json(obj)\<close>\<close>

definition send :: "nat \<Rightarrow> content \<Rightarrow> response \<Rightarrow> response" where
  "send code c res = res\<lparr>status := code, content := c\<rparr>"

text \<open>
  How a request ends: a route handler of the file sent a response; or the handler threw
  outside its \<open>try\<close> before sending anything; or the body parser passed an error on
  and no route handler ran; or no route matched.
\<close>

datatype reply = Handler response | Unsettled exn | Rejected exn | Unrouted

definition missing_html :: json where
  "missing_html = JObj [(''error'', JStr ''Missing or invalid 'html' field'')]"

definition failure :: "string \<Rightarrow> exn \<Rightarrow> json" where
  "failure what err = JObj [(''error'', JStr what), (''details'', JStr (details_of err))]"

definition invalid_html :: "json option \<Rightarrow> bool" where
  "invalid_html html = (\<not> truthy_u html \<or> typeof html \<noteq> ''string'')"

definition disposition :: "string \<Rightarrow> string" where
  "disposition name = ''inline; filename='' @ [CHR 0x22] @ name @ [CHR 0x22]"

definition default_margin :: "(string \<times> json) list" where
  "default_margin =
     [(''top'', JStr ''12mm''), (''right'', JStr ''12mm''),
      (''bottom'', JStr ''16mm''), (''left'', JStr ''12mm'')]"

definition print_opts :: "json \<Rightarrow> json \<Rightarrow> pdf_options" where
  "print_opts format margin =
     \<lparr>pdf_format = format, printBackground = True, preferCSSPageSize = True,
      pdf_margin = spread default_margin margin, displayHeaderFooter = False\<rparr>"

definition fonts_ready :: string where
  "fonts_ready = ''document.fonts && document.fonts.ready''"

text \<open>
  The tail the two \<open>/pdf\<close> handlers and \<open>/selftest\<close> share once the PDF is there:
  both headers are set, then the bytes are sent; a throw (of the template literal or
  of \<open>setHeader\<close>) leaves the response object as it then is.
\<close>

definition send_pdf :: "'r env \<Rightarrow> json \<Rightarrow> string \<Rightarrow> exn option \<times> response" where
  "send_pdf env filename pdf =
     (case setHeader env ''Content-Type'' ''application/pdf'' new_res of
        (Some e, r1) \<Rightarrow> (Some e, r1)
      | (None, r1) \<Rightarrow>
          (case js_string (num_str env) filename of
             None \<Rightarrow> (Some type_error, r1)
           | Some name \<Rightarrow>
               (case setHeader env ''Content-Disposition'' (disposition name) r1 of
                  (Some e, r2) \<Rightarrow> (Some e, r2)
                | (None, r2) \<Rightarrow> (None, send 200 (Bytes pdf) r2))))"

text \<open>The argument object of \<open>renderPdfFromHtml\<close>; an absent property is \<open>None\<close>.\<close>

record render_args =
  html_arg :: string
  baseURL_arg :: "json option"
  format_arg :: "json option"
  margin_arg :: "json option"
  filename_arg :: "json option"
  forceSystemFonts_arg :: "json option"

text \<open>
  A handler that opens the browser itself:
  \<open>let browser; try { browser = await launch; work; respond } catch (e) { respond with e }
  finally { if (browser) await browser.close() }\<close>.
  The response is sent inside the \<open>try\<close> or the \<open>catch\<close>; the session is closed after
  that, and a throw of \<open>close\<close> comes too late to change what was sent.
\<close>

definition guarded ::
  "string prog \<Rightarrow> string prog \<Rightarrow> string prog \<Rightarrow> (exn + string \<Rightarrow> response) \<Rightarrow> reply \<times> event list" where
  "guarded launch work close respond =
     (case launch [] of
        (Inl e, tr1) \<Rightarrow> (Handler (respond (Inl e)), tr1)
      | (Inr b, tr1) \<Rightarrow>
          (case work tr1 of
             (r, tr2) \<Rightarrow> (Handler (respond r), snd (close tr2))))"

definition no_op :: "string prog" where
  "no_op tr = (Inr [], tr)"

text \<open>What the \<open>try\<close>/\<open>catch\<close> around a finished render sends.\<close>

definition pdf_or_failure :: "'r env \<Rightarrow> string \<Rightarrow> json \<Rightarrow> exn + string \<Rightarrow> response" where
  "pdf_or_failure env what filename r =
     (case r of
        Inl err \<Rightarrow> send 500 (Json (failure what err)) new_res
      | Inr pdf \<Rightarrow>
          (case send_pdf env filename pdf of
             (Some err, res) \<Rightarrow> send 500 (Json (failure what err)) res
           | (None, res) \<Rightarrow> res))"

definition shot_or_failure :: "'r env \<Rightarrow> string \<Rightarrow> exn + string \<Rightarrow> response" where
  "shot_or_failure env h r =
     (case r of
        Inl e \<Rightarrow> send 500 (Json (failure ''pdf-debug failed'' e)) new_res
      | Inr png \<Rightarrow>
          send 200 (Json (JObj [(''screenshot_base64'', JStr (base64 env png)),
                                (''html_len'', JNum (real (length h)))])) new_res)"

text \<open>\<open>GET /healthz\<close>, the same in the three files.\<close>

definition healthz :: "reply \<times> event list" where
  "healthz = (Handler (send 200 (Text ''ok'') new_res), [])"

section \<open>\<open>src/server.js\<close>\<close>

definition launchBrowser_server :: "'r env \<Rightarrow> string prog" where
  "launchBrowser_server env = call env (Launch [''--no-sandbox'', ''--disable-dev-shm-usage''])"

definition renderPdfFromHtml_server :: "'r env \<Rightarrow> render_args \<Rightarrow> string prog" where
  "renderPdfFromHtml_server env a =
     with_browser (launchBrowser_server env)
       (and_then (call env (NewPage (or_undefined (baseURL_arg a)))) (\<lambda>page.
        and_then (call env (EmulateMedia ''screen'')) (\<lambda>u1.
        and_then (call env (SetContent (html_arg a) ''networkidle'' 30000)) (\<lambda>u2.
        and_then (ignoring (call env (EvaluateHandle fonts_ready))) (\<lambda>u3.
        call env (Pdf (print_opts (defaulted (JStr ''Letter'') (format_arg a))
                                  (defaulted (JObj []) (margin_arg a)))))))))
       (call env Close)"

definition post_pdf_server :: "'r env \<Rightarrow> json option \<Rightarrow> reply \<times> event list" where
  "post_pdf_server env body =
     (let b = body_or_empty body;
          html = field b ''html'';
          baseURL = defaulted JNull (field b ''baseURL'');
          format = defaulted (JStr ''Letter'') (field b ''format'');
          margin = defaulted (JObj []) (field b ''margin'');
          filename = defaulted (JStr ''document.pdf'') (field b ''filename'')
      in if invalid_html html then (Handler (send 400 (Json missing_html) new_res), [])
         else
           (case js_string (num_str env) format of
              None \<Rightarrow> (Unsettled type_error, [])
            | Some logged \<Rightarrow>
                (case renderPdfFromHtml_server env
                        \<lparr>html_arg = text_of html, baseURL_arg = Some baseURL, format_arg = Some format,
                         margin_arg = Some margin, filename_arg = Some filename,
                         forceSystemFonts_arg = None\<rparr> [] of
                   (r, tr) \<Rightarrow> (Handler (pdf_or_failure env ''PDF rendering failed'' filename r), tr))))"

definition selftest_html_server :: string where
  "selftest_html_server =
     ''<!doctype html><html><head><meta charset='' @ [CHR 0x22] @ ''utf-8'' @ [CHR 0x22] @ ''>'' @ [CHR 0x0A] @
     ''  <style>body{font:16px/1.4 Arial,sans-serif} h1{color:#3a47ff}</style></head>'' @ [CHR 0x0A] @
     ''  <body><h1>Selftest OK</h1><p>This PDF proves Chromium can render text.</p></body></html>''"

definition get_selftest_server :: "'r env \<Rightarrow> reply \<times> event list" where
  "get_selftest_server env =
     (case renderPdfFromHtml_server env
             \<lparr>html_arg = selftest_html_server, baseURL_arg = None, format_arg = None, margin_arg = None,
              filename_arg = Some (JStr ''selftest.pdf''), forceSystemFonts_arg = None\<rparr> [] of
        (r, tr) \<Rightarrow> (Handler (pdf_or_failure env ''Selftest failed'' (JStr ''selftest.pdf'') r), tr))"

definition post_pdf_debug_server :: "'r env \<Rightarrow> json option \<Rightarrow> reply \<times> event list" where
  "post_pdf_debug_server env body =
     (let b = body_or_empty body;
          html = field b ''html'';
          baseURL = defaulted JNull (field b ''baseURL'')
      in if invalid_html html then (Handler (send 400 (Json missing_html) new_res), [])
         else
           guarded (launchBrowser_server env)
             (and_then (call env (NewPage (or_undefined (Some baseURL)))) (\<lambda>page.
              and_then (call env (EmulateMedia ''screen'')) (\<lambda>u1.
              and_then (call env (SetContent (text_of html) ''networkidle'' 30000)) (\<lambda>u2.
              and_then (ignoring (call env (EvaluateHandle fonts_ready))) (\<lambda>u3.
              call env (Screenshot True ''png''))))))
             (call env Close)
             (shot_or_failure env (text_of html)))"

section \<open>\<open>src/unnamed/part_000\<close>\<close>

definition post_pdf_part0 :: "'r env \<Rightarrow> json option \<Rightarrow> reply \<times> event list" where
  "post_pdf_part0 env body =
     (let b = body_or_empty body;
          html = field b ''html'';
          baseURL = defaulted JNull (field b ''baseURL'');
          format = defaulted (JStr ''Letter'') (field b ''format'');
          margin = defaulted (JObj []) (field b ''margin'');
          filename = defaulted (JStr ''document.pdf'') (field b ''filename'')
      in if invalid_html html then (Handler (send 400 (Json missing_html) new_res), [])
         else
           guarded (call env (Launch [''--no-sandbox'']))
             (and_then (call env (NewPage (or_undefined (Some baseURL)))) (\<lambda>page.
              and_then (call env (SetContent (text_of html) ''networkidle'' 30000)) (\<lambda>u1.
              and_then (ignoring (call env (EvaluateHandle fonts_ready))) (\<lambda>u2.
              call env (Pdf (print_opts format margin))))))
             (call env Close)
             (pdf_or_failure env ''PDF rendering failed'' filename))"

section \<open>\<open>src/unnamed/part_001\<close>\<close>

definition launchBrowser_part1 :: "'r env \<Rightarrow> string prog" where
  "launchBrowser_part1 env =
     call env (Launch [''--no-sandbox'', ''--disable-dev-shm-usage'', ''--disable-gpu'',
                       ''--font-render-hinting=none''])"

text \<open>The listeners only log; registering them is what the request's trace shows.\<close>

definition attachDebug :: "'r env \<Rightarrow> string prog" where
  "attachDebug env =
     and_then (call env (OnEvent ''console'')) (\<lambda>u1.
     and_then (call env (OnEvent ''pageerror'')) (\<lambda>u2.
     and_then (call env (OnEvent ''requestfailed'')) (\<lambda>u3.
     call env (OnEvent ''response''))))"

definition VISIBILITY_CSS :: string where
  "VISIBILITY_CSS =
     [CHR 0x0A] @ ''  html,body{background:#fff !important;}'' @ [CHR 0x0A] @
     ''  *{-webkit-text-fill-color: initial !important; color:#0b1220 !important;}'' @ [CHR 0x0A]"

definition SYSTEM_FONT_CSS :: string where
  "SYSTEM_FONT_CSS =
     [CHR 0x0A] @
     ''  body, h1, h2, h3, h4, p, li, blockquote { font-family: Arial, sans-serif !important; }'' @
     [CHR 0x0A]"

definition renderPdfFromHtml_part1 :: "'r env \<Rightarrow> render_args \<Rightarrow> string prog" where
  "renderPdfFromHtml_part1 env a =
     with_browser (launchBrowser_part1 env)
       (and_then (call env (NewPage (or_undefined (baseURL_arg a)))) (\<lambda>page.
        and_then (attachDebug env) (\<lambda>u0.
        and_then (call env (EmulateMedia ''screen'')) (\<lambda>u1.
        and_then (call env (AddStyleTag VISIBILITY_CSS)) (\<lambda>u2.
        and_then (if truthy (defaulted (JBool False) (forceSystemFonts_arg a))
                  then call env (AddStyleTag SYSTEM_FONT_CSS) else no_op) (\<lambda>u3.
        and_then (call env (SetContent (html_arg a) ''networkidle'' 30000)) (\<lambda>u4.
        and_then (ignoring (call env (EvaluateHandle fonts_ready))) (\<lambda>u5.
        call env (Pdf (print_opts (defaulted (JStr ''Letter'') (format_arg a))
                                  (defaulted (JObj []) (margin_arg a))))))))))))
       (call env Close)"

definition post_pdf_part1 :: "'r env \<Rightarrow> json option \<Rightarrow> reply \<times> event list" where
  "post_pdf_part1 env body =
     (let b = body_or_empty body;
          html = field b ''html'';
          baseURL = defaulted JNull (field b ''baseURL'');
          format = defaulted (JStr ''Letter'') (field b ''format'');
          margin = defaulted (JObj []) (field b ''margin'');
          filename = defaulted (JStr ''document.pdf'') (field b ''filename'');
          forceSystemFonts = defaulted (JBool False) (field b ''forceSystemFonts'')
      in if invalid_html html then (Handler (send 400 (Json missing_html) new_res), [])
         else
           (case js_string (num_str env) format of
              None \<Rightarrow> (Unsettled type_error, [])
            | Some logged \<Rightarrow>
                (case renderPdfFromHtml_part1 env
                        \<lparr>html_arg = text_of html, baseURL_arg = Some baseURL, format_arg = Some format,
                         margin_arg = Some margin, filename_arg = Some filename,
                         forceSystemFonts_arg = Some forceSystemFonts\<rparr> [] of
                   (r, tr) \<Rightarrow> (Handler (pdf_or_failure env ''PDF rendering failed'' filename r), tr))))"

definition selftest_html_part1 :: string where
  "selftest_html_part1 =
     ''<!doctype html><html><head><meta charset='' @ [CHR 0x22] @ ''utf-8'' @ [CHR 0x22] @ ''><style>'' @ [CHR 0x0A] @
     ''  body{font:16px/1.4 Arial,sans-serif} h1{color:#3a47ff}'' @ [CHR 0x0A] @
     ''  </style></head><body>'' @ [CHR 0x0A] @
     ''  <h1>Selftest OK</h1><p>This PDF proves Chromium can render text.</p></body></html>''"

definition get_selftest_part1 :: "'r env \<Rightarrow> reply \<times> event list" where
  "get_selftest_part1 env =
     (case renderPdfFromHtml_part1 env
             \<lparr>html_arg = selftest_html_part1, baseURL_arg = None, format_arg = None, margin_arg = None,
              filename_arg = Some (JStr ''selftest.pdf''), forceSystemFonts_arg = Some (JBool True)\<rparr> [] of
        (r, tr) \<Rightarrow> (Handler (pdf_or_failure env ''Selftest failed'' (JStr ''selftest.pdf'') r), tr))"

definition post_pdf_debug_part1 :: "'r env \<Rightarrow> json option \<Rightarrow> reply \<times> event list" where
  "post_pdf_debug_part1 env body =
     (let b = body_or_empty body;
          html = field b ''html'';
          baseURL = defaulted JNull (field b ''baseURL'');
          forceSystemFonts = defaulted (JBool False) (field b ''forceSystemFonts'')
      in if invalid_html html then (Handler (send 400 (Json missing_html) new_res), [])
         else
           guarded (launchBrowser_part1 env)
             (and_then (call env (NewPage (or_undefined (Some baseURL)))) (\<lambda>page.
              and_then (attachDebug env) (\<lambda>u0.
              and_then (call env (EmulateMedia ''screen'')) (\<lambda>u1.
              and_then (call env (AddStyleTag VISIBILITY_CSS)) (\<lambda>u2.
              and_then (if truthy forceSystemFonts
                        then call env (AddStyleTag SYSTEM_FONT_CSS) else no_op) (\<lambda>u3.
              and_then (call env (SetContent (text_of html) ''networkidle'' 30000)) (\<lambda>u4.
              and_then (ignoring (call env (EvaluateHandle fonts_ready))) (\<lambda>u5.
              call env (Screenshot True ''png'')))))))))
             (call env Close)
             (shot_or_failure env (text_of html)))"

section \<open>The application\<close>

text \<open>
  Each file registers \<open>express.json({ limit: "20mb" })\<close> first, for every request, and
  its routes after it. \<open>verb\<close> and \<open>path\<close> are the method and the path as the router
  matches them; \<open>raw\<close> is what the body parser reads (the headers and the bytes).
\<close>

datatype build = Server_js | Part_000 | Part_001

record 'r request =
  verb :: string
  path :: string
  raw :: 'r

fun routes :: "build \<Rightarrow> 'r env \<Rightarrow> string \<Rightarrow> string \<Rightarrow> (json option \<Rightarrow> reply \<times> event list) option" where
  "routes Server_js env v p =
     (if v = ''GET'' \<and> p = ''/healthz'' then Some (\<lambda>body. healthz)
      else if v = ''POST'' \<and> p = ''/pdf'' then Some (post_pdf_server env)
      else if v = ''GET'' \<and> p = ''/selftest'' then Some (\<lambda>body. get_selftest_server env)
      else if v = ''POST'' \<and> p = ''/pdf-debug'' then Some (post_pdf_debug_server env)
      else None)"
| "routes Part_000 env v p =
     (if v = ''GET'' \<and> p = ''/healthz'' then Some (\<lambda>body. healthz)
      else if v = ''POST'' \<and> p = ''/pdf'' then Some (post_pdf_part0 env)
      else None)"
| "routes Part_001 env v p =
     (if v = ''GET'' \<and> p = ''/healthz'' then Some (\<lambda>body. healthz)
      else if v = ''POST'' \<and> p = ''/pdf'' then Some (post_pdf_part1 env)
      else if v = ''GET'' \<and> p = ''/selftest'' then Some (\<lambda>body. get_selftest_part1 env)
      else if v = ''POST'' \<and> p = ''/pdf-debug'' then Some (post_pdf_debug_part1 env)
      else None)"

definition serve :: "build \<Rightarrow> 'r env \<Rightarrow> 'r request \<Rightarrow> reply \<times> event list" where
  "serve b env rq =
     (case json_parser env ''20mb'' (raw rq) of
        Inl e \<Rightarrow> (Rejected e, [])
      | Inr body \<Rightarrow>
          (case routes b env (verb rq) (path rq) of
             None \<Rightarrow> (Unrouted, [])
           | Some h \<Rightarrow> h body))"

section \<open>Properties of a request's trace\<close>

text \<open>
  The sessions left open by a trace: a launch that returned opens one, a call of
  \<open>close\<close> ends one.
\<close>

fun open_after :: "nat \<Rightarrow> event list \<Rightarrow> nat" where
  "open_after n [] = n"
| "open_after n ((Launch args, Inr b) # tr) = open_after (Suc n) tr"
| "open_after n ((Close, r) # tr) = open_after (n - 1) tr"
| "open_after n (ev # tr) = open_after n tr"

fun launched :: "event \<Rightarrow> bool" where
  "launched (Launch args, Inr b) = True"
| "launched ev = False"

text \<open>
  No session outlives the request: none is left open, and when one was started the
  last call of the trace is its \<open>close\<close>.
\<close>

definition released :: "event list \<Rightarrow> bool" where
  "released tr = (open_after 0 tr = 0 \<and> (list_ex launched tr \<longrightarrow> fst (last tr) = Close))"

text \<open>The style sheets injected, in order.\<close>

fun style_tags :: "event list \<Rightarrow> string list" where
  "style_tags [] = []"
| "style_tags ((AddStyleTag css, r) # tr) = css # style_tags tr"
| "style_tags (ev # tr) = style_tags tr"

text \<open>
  The calls of the render recipe whose failure is a failure of the render: all but the
  best-effort wait for the fonts and the closing of the session.
\<close>

fun pipeline_step :: "action \<Rightarrow> bool" where
  "pipeline_step (EvaluateHandle js) = False"
| "pipeline_step Close = False"
| "pipeline_step a = True"

text \<open>Two replies that differ at most in the \<open>Content-Disposition\<close> header.\<close>

fun same_but_disposition :: "reply \<Rightarrow> reply \<Rightarrow> bool" where
  "same_but_disposition (Handler r1) (Handler r2) =
     (status r1 = status r2 \<and> content r1 = content r2 \<and>
      AList.delete ''Content-Disposition'' (headers r1) =
      AList.delete ''Content-Disposition'' (headers r2))"
| "same_but_disposition x y = (x = y)"

text \<open>The \<open>filename\<close> and the \<open>forceSystemFonts\<close> flag a body carries, with the defaults of the handlers.\<close>

definition filename_of :: "json option \<Rightarrow> json" where
  "filename_of body = defaulted (JStr ''document.pdf'') (field (body_or_empty body) ''filename'')"

definition fonts_flag :: "json option \<Rightarrow> bool" where
  "fonts_flag body = truthy (defaulted (JBool False) (field (body_or_empty body) ''forceSystemFonts''))"

text \<open>The part of a trace that precedes the loading of the HTML.\<close>

fun is_set_content :: "event \<Rightarrow> bool" where
  "is_set_content (SetContent h w t, r) = True"
| "is_set_content ev = False"

definition before_content :: "event list \<Rightarrow> event list" where
  "before_content tr = takeWhile (\<lambda>ev. \<not> is_set_content ev) tr"

text \<open>
  The style sheets of \<open>part_001\<close> on a trace: when the HTML is loaded, what was injected
  before is the visibility sheet, then the font sheet if and only if it is forced;
  and the font sheet is injected nowhere when it is not forced.
\<close>

definition styled :: "bool \<Rightarrow> event list \<Rightarrow> bool" where
  "styled forced tr =
     ((list_ex is_set_content tr \<longrightarrow>
         style_tags (before_content tr) =
           VISIBILITY_CSS # (if forced then [SYSTEM_FONT_CSS] else [])) \<and>
      (\<not> forced \<longrightarrow> SYSTEM_FONT_CSS \<notin> set (style_tags tr)))"




text \<open>
  All or nothing, first on a run of the recipe and then on the reply of \<open>/pdf\<close>. When
  a step of the recipe throws, the outcome is an error: the one the step threw, unless
  the closing of the session throws too and the render is not written inside the handler
  (\<open>inline\<close>), in which case it is the one \<open>close\<close> threw. The reply is then the fixed
  error payload with that error's message, and every reply is either the printed bytes
  with status 200 or the error payload with status 500.
\<close>

definition render_fails :: "bool \<Rightarrow> exn + string \<Rightarrow> event list \<Rightarrow> bool" where
  "render_fails inline r tr =
     ((\<forall>a e. (a, Inl e) \<in> set tr \<and> pipeline_step a \<longrightarrow>
         (\<exists>e'. r = Inl e' \<and>
            (inline \<or> (\<forall>ec. (Close, Inl ec) \<notin> set tr) \<longrightarrow> e' = e) \<and>
            (\<forall>ec. \<not> inline \<and> (Close, Inl ec) \<in> set tr \<longrightarrow> e' = ec))) \<and>
      (\<forall>pdf. r = Inr pdf \<longrightarrow> (\<exists>opts. (Pdf opts, Inr pdf) \<in> set tr)))"

definition all_or_nothing :: "bool \<Rightarrow> reply \<Rightarrow> event list \<Rightarrow> bool" where
  "all_or_nothing inline rep tr =
     ((\<forall>a e. (a, Inl e) \<in> set tr \<and> pipeline_step a \<longrightarrow>
         (\<exists>e'. rep = Handler \<lparr>status = 500, headers = [],
                    content = Json (failure ''PDF rendering failed'' e')\<rparr> \<and>
            (inline \<or> (\<forall>ec. (Close, Inl ec) \<notin> set tr) \<longrightarrow> e' = e) \<and>
            (\<forall>ec. \<not> inline \<and> (Close, Inl ec) \<in> set tr \<longrightarrow> e' = ec))) \<and>
      (\<forall>res. rep = Handler res \<longrightarrow>
         (status res = 200 \<and> (\<exists>opts pdf. (Pdf opts, Inr pdf) \<in> set tr \<and> content res = Bytes pdf)) \<or>
         (status res = 500 \<and> (\<exists>e'. content res = Json (failure ''PDF rendering failed'' e')))))"

text \<open>The \<open>margin\<close> a body carries, with the default of the handlers.\<close>

definition margin_of :: "json option \<Rightarrow> json" where
  "margin_of body = defaulted (JObj []) (field (body_or_empty body) ''margin'')"

section \<open>The body parser\<close>

text \<open>
  \<open>express.json\<close> is not a file of the repository; this is the parser as its
  documentation describes it. What it reads of a request: whether the
  \<open>Content-Type\<close> is JSON, the length of the body in bytes (after decoding), and what
  \<open>JSON.parse\<close> makes of the body's text.
\<close>

record raw_request =
  json_type :: bool
  body_bytes :: nat
  parsed :: "exn + json"

text \<open>
  The \<open>limit\<close> option as the \<open>bytes\<close> library reads a string: a number and a unit,
  in powers of 1024. Whole numbers and lower-case units are modelled, which covers the
  literal the files pass; any other string gives \<open>None\<close>.
\<close>

definition is_digit :: "char \<Rightarrow> bool" where
  "is_digit c = (c \<in> set ''0123456789'')"

definition digits_value :: "string \<Rightarrow> nat" where
  "digits_value ds = foldl (\<lambda>n c. 10 * n + (of_char c - 48)) 0 ds"

definition unit_bytes :: "string \<Rightarrow> nat option" where
  "unit_bytes u =
     (if u = [] \<or> u = ''b'' then Some 1
      else if u = ''kb'' then Some 1024
      else if u = ''mb'' then Some (1024 * 1024)
      else if u = ''gb'' then Some (1024 * 1024 * 1024)
      else if u = ''tb'' then Some (1024 * 1024 * 1024 * 1024)
      else None)"

definition parse_bytes :: "string \<Rightarrow> nat option" where
  "parse_bytes s =
     (let ds = takeWhile is_digit s;
          u = dropWhile (\<lambda>c. c = CHR '' '') (dropWhile is_digit s)
      in if ds = [] then None
         else (case unit_bytes u of None \<Rightarrow> None | Some f \<Rightarrow> Some (digits_value ds * f)))"

definition too_large :: exn where
  "too_large = Exn (Some ''request entity too large'') ''PayloadTooLargeError: request entity too large''"

definition not_json :: exn where
  "not_json = Exn (Some ''Unexpected token in JSON'') ''SyntaxError: Unexpected token in JSON''"

text \<open>
  The middleware \<open>express.json({ limit })\<close>: a request with no body, or whose
  \<open>Content-Type\<close> is not JSON, is passed on unread with an empty object for body; a
  body of more bytes than the limit is refused (413, \<open>request entity too large\<close>)
  before it is parsed; a body that does not parse, or that parses to something other
  than an object or an array (the parser is strict by default), is refused too; otherwise
  the parsed value becomes \<open>req.body\<close>.
\<close>

definition express_json :: "string \<Rightarrow> raw_request \<Rightarrow> exn + json option" where
  "express_json limit r =
     (if body_bytes r = 0 \<or> \<not> json_type r then Inr (Some (JObj []))
      else if (case parse_bytes limit of None \<Rightarrow> False | Some n \<Rightarrow> n < body_bytes r)
        then Inl too_large
      else
        (case parsed r of
           Inl e \<Rightarrow> Inl e
         | Inr (JObj ps) \<Rightarrow> Inr (Some (JObj ps))
         | Inr (JArr xs) \<Rightarrow> Inr (Some (JArr xs))
         | Inr j \<Rightarrow> Inl not_json))"

section \<open>A concrete runtime\<close>

text \<open>
  The instances below make the examples run. The header check is the one Node's
  \<open>http\<close> module documents for \<open>setHeader\<close>: a TypeError when the value holds a
  character other than a tab, a printable ASCII character or a byte from 0x80 up.
  The body parser is \<open>express_json\<close> above.
\<close>

definition header_char_ok :: "char \<Rightarrow> bool" where
  "header_char_ok c = (of_char c = (9::nat) \<or> (32 \<le> (of_char c :: nat) \<and> of_char c \<noteq> (127::nat)))"

definition invalid_char :: "string \<Rightarrow> exn" where
  "invalid_char name =
     Exn (Some (''Invalid character in header content ['' @ [CHR 0x22] @ name @ [CHR 0x22] @ '']''))
         (''TypeError: Invalid character in header content ['' @ [CHR 0x22] @ name @ [CHR 0x22] @ '']'')"

definition strict_header_check :: "string \<Rightarrow> string \<Rightarrow> exn option" where
  "strict_header_check name v = (if list_all header_char_ok v then None else Some (invalid_char name))"

text \<open>A browser in which every call succeeds, and browsers in which one call throws.\<close>

fun fine :: "event list \<Rightarrow> action \<Rightarrow> exn + string" where
  "fine tr (Pdf opts) = Inr ''%PDF-1.4''"
| "fine tr (Screenshot full kind) = Inr ''PNG''"
| "fine tr a = Inr []"

definition timeout_exn :: exn where
  "timeout_exn = Exn (Some ''Timeout 30000ms exceeded.'') ''TimeoutError: Timeout 30000ms exceeded.''"

definition format_exn :: exn where
  "format_exn = Exn (Some ''Unknown paper format'') ''Error: Unknown paper format''"

definition fonts_exn :: exn where
  "fonts_exn = Exn (Some ''Execution context was destroyed'') ''Error: Execution context was destroyed''"


fun bad_format :: "event list \<Rightarrow> action \<Rightarrow> exn + string" where
  "bad_format tr (Pdf opts) = Inl format_exn"
| "bad_format tr a = fine tr a"

definition close_exn :: exn where
  "close_exn = Exn (Some ''Target page, context or browser has been closed'')
                   ''Error: Target page, context or browser has been closed''"

fun bad_format_bad_close :: "event list \<Rightarrow> action \<Rightarrow> exn + string" where
  "bad_format_bad_close tr (Pdf opts) = Inl format_exn"
| "bad_format_bad_close tr Close = Inl close_exn"
| "bad_format_bad_close tr a = fine tr a"


definition runtime :: "(event list \<Rightarrow> action \<Rightarrow> exn + string) \<Rightarrow> raw_request env" where
  "runtime br =
     \<lparr>browser = br, header_check = strict_header_check, json_parser = express_json,
      num_str = (\<lambda>n. string_of_nat (nat \<lfloor>n\<rfloor>)), base64 = (\<lambda>bytes. bytes)\<rparr>"

definition post :: "string \<Rightarrow> (string \<times> json) list \<Rightarrow> raw_request request" where
  "post p ps =
     \<lparr>verb = ''POST'', path = p,
      raw = \<lparr>json_type = True, body_bytes = 1024, parsed = Inr (JObj ps)\<rparr>\<rparr>"

definition hello :: string where
  "hello = ''<h1>Hello</h1>''"

section \<open>Reading a run\<close>

text \<open>
  Each rule takes a finished run apart into the runs of its parts; a call contributes
  one event, whatever the browser answered.
\<close>

lemma call_E:
  assumes "call env a tr = (r, tr')"
  obtains "tr' = tr @ [(a, r)]"
  using assms by (auto simp: call_def)

lemma and_then_E:
  assumes "and_then m f tr = (r, tr')"
  obtains (throws) e where "m tr = (Inl e, tr')" "r = Inl e"
        | (goes) v tr1 where "m tr = (Inr v, tr1)" "f v tr1 = (r, tr')"
  using assms by (auto simp: and_then_def split: prod.splits sum.splits)

lemma ignoring_E:
  assumes "ignoring m tr = (r, tr')"
  obtains x v where "m tr = (x, tr')" "r = Inr v"
  using assms by (auto simp: ignoring_def split: prod.splits sum.splits)

lemma no_op_E:
  assumes "no_op tr = (r, tr')"
  obtains "tr' = tr" "r = Inr []"
  using assms by (auto simp: no_op_def)

lemma with_browser_E:
  assumes "with_browser launch work close tr = (r, tr')"
  obtains (nolaunch) e where "launch tr = (Inl e, tr')" "r = Inl e"
        | (closed) b tr1 r1 tr2 r2 where
            "launch tr = (Inr b, tr1)" "work tr1 = (r1, tr2)" "close tr2 = (r2, tr')"
            "r = (case r2 of Inl e \<Rightarrow> Inl e | Inr u \<Rightarrow> r1)"
  using assms by (auto simp: with_browser_def split: prod.splits sum.splits)

lemma guarded_E:
  assumes "guarded launch work close respond = (rep, tr')"
  obtains (nolaunch) e where "launch [] = (Inl e, tr')" "rep = Handler (respond (Inl e))"
        | (failed) b tr1 e tr2 r2 where
            "launch [] = (Inr b, tr1)" "work tr1 = (Inl e, tr2)" "close tr2 = (r2, tr')"
            "rep = Handler (respond (Inl e))"
        | (finished) b tr1 v tr2 r2 where
            "launch [] = (Inr b, tr1)" "work tr1 = (Inr v, tr2)" "close tr2 = (r2, tr')"
            "rep = Handler (respond (Inr v))"
proof (cases "launch []")
  case (Pair l tr1)
  show ?thesis
  proof (cases l)
    case (Inl e)
    with Pair assms that(1) show ?thesis by (simp add: guarded_def)
  next
    case (Inr b)
    obtain r1 tr2 where w: "work tr1 = (r1, tr2)" by (cases "work tr1")
    obtain r2 tr3 where c: "close tr2 = (r2, tr3)" by (cases "close tr2")
    from Pair Inr w c assms have "rep = Handler (respond r1)" "tr' = tr3"
      by (simp_all add: guarded_def)
    with Pair Inr w c that(2,3) show ?thesis by (cases r1) auto
  qed
qed

lemmas run_E = with_browser_E guarded_E and_then_E call_E ignoring_E no_op_E

text \<open>The ways a request is served: by the parser's error, by no route, or by one handler.\<close>

lemma serve_E:
  assumes "serve b env rq = out"
  obtains
    (rejected) e where "json_parser env ''20mb'' (raw rq) = Inl e" "out = (Rejected e, [])"
  | (unrouted) "routes b env (verb rq) (path rq) = None" "out = (Unrouted, [])"
  | (healthz) "verb rq = ''GET''" "path rq = ''/healthz''" "healthz = out"
  | (pdf_server) body where "b = Server_js" "verb rq = ''POST''" "path rq = ''/pdf''"
      "json_parser env ''20mb'' (raw rq) = Inr body" "post_pdf_server env body = out"
  | (selftest_server) "b = Server_js" "verb rq = ''GET''" "path rq = ''/selftest''"
      "get_selftest_server env = out"
  | (debug_server) body where "b = Server_js" "verb rq = ''POST''" "path rq = ''/pdf-debug''"
      "json_parser env ''20mb'' (raw rq) = Inr body" "post_pdf_debug_server env body = out"
  | (pdf_part0) body where "b = Part_000" "verb rq = ''POST''" "path rq = ''/pdf''"
      "json_parser env ''20mb'' (raw rq) = Inr body" "post_pdf_part0 env body = out"
  | (pdf_part1) body where "b = Part_001" "verb rq = ''POST''" "path rq = ''/pdf''"
      "json_parser env ''20mb'' (raw rq) = Inr body" "post_pdf_part1 env body = out"
  | (selftest_part1) "b = Part_001" "verb rq = ''GET''" "path rq = ''/selftest''"
      "get_selftest_part1 env = out"
  | (debug_part1) body where "b = Part_001" "verb rq = ''POST''" "path rq = ''/pdf-debug''"
      "json_parser env ''20mb'' (raw rq) = Inr body" "post_pdf_debug_part1 env body = out"
  using assms unfolding serve_def
  by (cases b) (auto split: sum.splits option.splits if_splits)

text \<open>The limit the three files configure is 20 MiB.\<close>

lemma limit_20mb: "parse_bytes ''20mb'' = Some 20971520"
  by (simp add: parse_bytes_def is_digit_def digits_value_def unit_bytes_def)

lemma express_json_small:
  "express_json ''20mb'' \<lparr>json_type = True, body_bytes = 1024, parsed = Inr (JObj ps)\<rparr> =
     Inr (Some (JObj ps))"
  by (simp add: express_json_def limit_20mb)

text \<open>The equations that run a request on the concrete runtime.\<close>

lemmas run_simps =
  serve_def post_def runtime_def express_json_small healthz_def
  post_pdf_server_def get_selftest_server_def post_pdf_debug_server_def
  post_pdf_part0_def post_pdf_part1_def get_selftest_part1_def post_pdf_debug_part1_def
  renderPdfFromHtml_server_def renderPdfFromHtml_part1_def launchBrowser_server_def
  launchBrowser_part1_def attachDebug_def
  call_def and_then_def ignoring_def with_browser_def guarded_def no_op_def
  Let_def body_or_empty_def invalid_html_def truthy_u_def defaulted_def or_undefined_def
  text_of_def pdf_or_failure_def shot_or_failure_def send_pdf_def setHeader_def
  strict_header_check_def header_char_ok_def invalid_char_def disposition_def send_def
  new_res_def failure_def missing_html_def details_of_def print_opts_def spread_def
  default_margin_def hello_def fonts_ready_def released_def filename_of_def fonts_flag_def
  type_error_def timeout_exn_def format_exn_def fonts_exn_def too_large_def close_exn_def

section \<open>The session is always released\<close>

lemma released_Nil: "released []"
  by (simp add: released_def)

lemma render_server_released:
  "renderPdfFromHtml_server env a [] = (r, tr) \<Longrightarrow> released tr"
  unfolding renderPdfFromHtml_server_def launchBrowser_server_def released_def
  by (auto elim!: run_E)

lemma render_part1_released:
  "renderPdfFromHtml_part1 env a [] = (r, tr) \<Longrightarrow> released tr"
  unfolding renderPdfFromHtml_part1_def launchBrowser_part1_def attachDebug_def released_def
  by (auto elim!: run_E split: if_splits)

lemma pdf_server_released: "post_pdf_server env body = (rep, tr) \<Longrightarrow> released tr"
  unfolding post_pdf_server_def Let_def
  by (auto split: if_splits option.splits prod.splits simp: released_Nil
        dest: render_server_released)

lemma selftest_server_released: "get_selftest_server env = (rep, tr) \<Longrightarrow> released tr"
  unfolding get_selftest_server_def
  by (auto split: prod.splits dest: render_server_released)

lemma debug_server_released: "post_pdf_debug_server env body = (rep, tr) \<Longrightarrow> released tr"
  unfolding post_pdf_debug_server_def Let_def launchBrowser_server_def
  by (auto split: if_splits elim!: run_E simp: released_def)

lemma pdf_part0_released: "post_pdf_part0 env body = (rep, tr) \<Longrightarrow> released tr"
  unfolding post_pdf_part0_def Let_def
  by (auto split: if_splits elim!: run_E simp: released_def)

lemma pdf_part1_released: "post_pdf_part1 env body = (rep, tr) \<Longrightarrow> released tr"
  unfolding post_pdf_part1_def Let_def
  by (auto split: if_splits option.splits prod.splits simp: released_Nil
        dest: render_part1_released)

lemma selftest_part1_released: "get_selftest_part1 env = (rep, tr) \<Longrightarrow> released tr"
  unfolding get_selftest_part1_def
  by (auto split: prod.splits dest: render_part1_released)

lemma debug_part1_released: "post_pdf_debug_part1 env body = (rep, tr) \<Longrightarrow> released tr"
  unfolding post_pdf_debug_part1_def Let_def launchBrowser_part1_def attachDebug_def
  by (auto split: if_splits elim!: run_E simp: released_def)

lemma serve_released:
  assumes "serve b env rq = (rep, tr)"
  shows "released tr"
  using assms
  by (cases rule: serve_E)
     (auto simp: released_Nil healthz_def
        dest: pdf_server_released selftest_server_released debug_server_released
          pdf_part0_released pdf_part1_released selftest_part1_released debug_part1_released)

text \<open>
  Claim C2. Whatever the browser answers and however the request ends, in each of the
  three files, the trace of a request leaves no session open: a launch that returned
  is followed by a call of \<open>close\<close>, which is the last call of the request. The same
  holds of \<open>renderPdfFromHtml\<close> taken alone, whether it returns the bytes or throws.
  A launch that throws started no session, and nothing is closed then.
\<close>

theorem sessions_released:
  "released (snd (serve b env rq)) \<and>
   released (snd (renderPdfFromHtml_server env a [])) \<and>
   released (snd (renderPdfFromHtml_part1 env a []))"
  by (metis prod.collapse serve_released render_server_released render_part1_released)

text \<open>
  The scenario of the specification: a malformed \<open>format\<close> makes the print step throw;
  the answer is the error payload and the trace still ends with \<open>close\<close>.
\<close>

theorem sessions_released_witness:
  "serve Server_js (runtime bad_format)
     (post ''/pdf'' [(''html'', JStr hello), (''format'', JStr ''Lettre'')]) =
   (Handler \<lparr>status = 500, headers = [],
      content = Json (JObj [(''error'', JStr ''PDF rendering failed''),
                            (''details'', JStr ''Unknown paper format'')])\<rparr>,
    [(Launch [''--no-sandbox'', ''--disable-dev-shm-usage''], Inr []),
     (NewPage None, Inr []), (EmulateMedia ''screen'', Inr []),
     (SetContent ''<h1>Hello</h1>'' ''networkidle'' 30000, Inr []),
     (EvaluateHandle ''document.fonts && document.fonts.ready'', Inr []),
     (Pdf \<lparr>pdf_format = JStr ''Lettre'', printBackground = True, preferCSSPageSize = True,
           pdf_margin = [(''top'', JStr ''12mm''), (''right'', JStr ''12mm''),
                         (''bottom'', JStr ''16mm''), (''left'', JStr ''12mm'')],
           displayHeaderFooter = False\<rparr>, Inl format_exn),
     (Close, Inr [])]) \<and>
   released (snd (serve Server_js (runtime bad_format)
     (post ''/pdf'' [(''html'', JStr hello), (''format'', JStr ''Lettre'')])))"
  using sessions_released [of Server_js "runtime bad_format"
     "post ''/pdf'' [(''html'', JStr hello), (''format'', JStr ''Lettre'')]"]
  by (simp add: run_simps)

section \<open>Validation\<close>

lemma invalid_htmlI: "\<forall>s. v = Some (JStr s) \<longrightarrow> s = [] \<Longrightarrow> invalid_html v"
  by (cases v rule: typeof.cases) (auto simp: invalid_html_def truthy_u_def)

text \<open>
  Claim C3. A \<open>POST /pdf\<close> (in each file) or \<open>POST /pdf-debug\<close> (in the two files that
  have the route) whose body has no \<open>html\<close>, an empty one or one that is not a string
  (so: unless \<open>html\<close> is a non-empty string) is answered 400 with a JSON body holding
  an \<open>error\<close> field, and the trace is empty: the browser is never called.
\<close>

theorem invalid_html_rejected:
  assumes "json_parser env ''20mb'' (raw rq) = Inr body"
    and "verb rq = ''POST''"
    and "path rq = ''/pdf'' \<or> (path rq = ''/pdf-debug'' \<and> b \<noteq> Part_000)"
    and "\<forall>s. field (body_or_empty body) ''html'' = Some (JStr s) \<longrightarrow> s = []"
  shows "serve b env rq =
    (Handler \<lparr>status = 400, headers = [],
       content = Json (JObj [(''error'', JStr ''Missing or invalid 'html' field'')])\<rparr>, [])"
proof -
  have bad: "invalid_html (field (body_or_empty body) ''html'')"
    using assms(4) by (rule invalid_htmlI)
  show ?thesis
    using assms(1-3) bad
    by (cases b)
       (auto simp: serve_def post_pdf_server_def post_pdf_debug_server_def post_pdf_part0_def
          post_pdf_part1_def post_pdf_debug_part1_def Let_def send_def new_res_def
          missing_html_def)
qed

text \<open>A body without \<open>html\<close>, a number for \<open>html\<close>, and the empty string.\<close>

theorem invalid_html_rejected_witness:
  "serve Part_001 (runtime fine) (post ''/pdf'' []) =
     (Handler \<lparr>status = 400, headers = [],
        content = Json (JObj [(''error'', JStr ''Missing or invalid 'html' field'')])\<rparr>, []) \<and>
   serve Server_js (runtime fine) (post ''/pdf-debug'' [(''html'', JNum 5)]) =
     (Handler \<lparr>status = 400, headers = [],
        content = Json (JObj [(''error'', JStr ''Missing or invalid 'html' field'')])\<rparr>, []) \<and>
   serve Part_000 (runtime fine) (post ''/pdf'' [(''html'', JStr [])]) =
     (Handler \<lparr>status = 400, headers = [],
        content = Json (JObj [(''error'', JStr ''Missing or invalid 'html' field'')])\<rparr>, [])"
proof -
  have p: "\<And>ps. json_parser (runtime fine) ''20mb'' (raw (post ''/pdf'' ps)) = Inr (Some (JObj ps))"
          "\<And>ps. json_parser (runtime fine) ''20mb'' (raw (post ''/pdf-debug'' ps)) = Inr (Some (JObj ps))"
    by (simp_all add: runtime_def post_def express_json_small)
  have 1: "\<forall>s. field (body_or_empty (Some (JObj []))) ''html'' = Some (JStr s) \<longrightarrow> s = []"
    and 2: "\<forall>s. field (body_or_empty (Some (JObj [(''html'', JNum 5)]))) ''html'' = Some (JStr s) \<longrightarrow> s = []"
    and 3: "\<forall>s. field (body_or_empty (Some (JObj [(''html'', JStr [])]))) ''html'' = Some (JStr s) \<longrightarrow> s = []"
    by (simp_all add: body_or_empty_def)
  show ?thesis
    using invalid_html_rejected [OF p(1) _ _ 1, of Part_001]
      invalid_html_rejected [OF p(2) _ _ 2, of Server_js]
      invalid_html_rejected [OF p(1) _ _ 3, of Part_000]
    by (simp add: post_def)
qed

section \<open>The body limit\<close>

text \<open>
  Claim C9. Each file registers the JSON body parser with the limit \<open>20mb\<close> before
  any route. With the parser behaving as documented, a request whose JSON body is
  longer than 20 MiB (20971520 bytes) is refused by the parser with
  \<open>request entity too large\<close>: no handler runs, so nothing is validated and the browser
  is never called.
\<close>

theorem oversized_body_rejected:
  assumes "json_parser env = express_json"
    and "json_type (raw rq)"
    and "20 * 1024 * 1024 < body_bytes (raw rq)"
  shows "serve b env rq = (Rejected too_large, [])"
  using assms by (simp add: serve_def express_json_def limit_20mb)

text \<open>
  One byte over 20 MiB is refused, whatever the body holds; a body of exactly 20 MiB
  reaches the handler.
\<close>

theorem oversized_body_rejected_witness:
  "serve Part_001 (runtime fine)
     \<lparr>verb = ''POST'', path = ''/pdf'',
      raw = \<lparr>json_type = True, body_bytes = 20971521,
             parsed = Inr (JObj [(''html'', JStr hello)])\<rparr>\<rparr>
   = (Rejected too_large, []) \<and>
   fst (serve Part_001 (runtime fine)
     \<lparr>verb = ''POST'', path = ''/pdf'',
      raw = \<lparr>json_type = True, body_bytes = 20971520,
             parsed = Inr (JObj [(''html'', JStr hello)])\<rparr>\<rparr>) =
     Handler \<lparr>status = 200,
        headers = [(''Content-Type'', ''application/pdf''),
                   (''Content-Disposition'', disposition ''document.pdf'')],
        content = Bytes ''%PDF-1.4''\<rparr>"
proof -
  let ?over = "\<lparr>verb = ''POST'', path = ''/pdf'',
      raw = \<lparr>json_type = True, body_bytes = 20971521,
             parsed = Inr (JObj [(''html'', JStr hello)])\<rparr>\<rparr>"
  have p: "json_parser (runtime fine) = express_json"
    by (simp add: runtime_def)
  have t: "json_type (raw ?over)" and n: "20 * 1024 * 1024 < body_bytes (raw ?over)"
    by simp_all
  have a: "serve Part_001 (runtime fine) ?over = (Rejected too_large, [])"
    by (rule oversized_body_rejected [OF p t n])
  have b: "fst (serve Part_001 (runtime fine)
     \<lparr>verb = ''POST'', path = ''/pdf'',
      raw = \<lparr>json_type = True, body_bytes = 20971520,
             parsed = Inr (JObj [(''html'', JStr hello)])\<rparr>\<rparr>) =
     Handler \<lparr>status = 200,
        headers = [(''Content-Type'', ''application/pdf''),
                   (''Content-Disposition'', disposition ''document.pdf'')],
        content = Bytes ''%PDF-1.4''\<rparr>"
    by (simp add: express_json_def limit_20mb run_simps)
  show ?thesis by (rule conjI [OF a b])
qed

section \<open>The launch flags\<close>

lemma render_server_flags:
  "renderPdfFromHtml_server env a [] = (r, tr) \<Longrightarrow> (Launch args, x) \<in> set tr \<Longrightarrow>
     args = [''--no-sandbox'', ''--disable-dev-shm-usage'']"
  unfolding renderPdfFromHtml_server_def launchBrowser_server_def
  by (auto elim!: run_E)

lemma render_part1_flags:
  "renderPdfFromHtml_part1 env a [] = (r, tr) \<Longrightarrow> (Launch args, x) \<in> set tr \<Longrightarrow>
     args = [''--no-sandbox'', ''--disable-dev-shm-usage'', ''--disable-gpu'', ''--font-render-hinting=none'']"
  unfolding renderPdfFromHtml_part1_def launchBrowser_part1_def attachDebug_def
  by (auto elim!: run_E split: if_splits)

lemma server_flags:
  assumes "(Launch args, x) \<in> set tr"
  shows "post_pdf_server env body = (rep, tr) \<Longrightarrow> args = [''--no-sandbox'', ''--disable-dev-shm-usage'']"
    and "get_selftest_server env = (rep, tr) \<Longrightarrow> args = [''--no-sandbox'', ''--disable-dev-shm-usage'']"
    and "post_pdf_debug_server env body = (rep, tr) \<Longrightarrow> args = [''--no-sandbox'', ''--disable-dev-shm-usage'']"
  using assms
  unfolding post_pdf_server_def get_selftest_server_def post_pdf_debug_server_def Let_def
    launchBrowser_server_def
  by (auto split: if_splits option.splits prod.splits dest: render_server_flags elim!: run_E)

lemma part0_flags:
  assumes "(Launch args, x) \<in> set tr"
  shows "post_pdf_part0 env body = (rep, tr) \<Longrightarrow> args = [''--no-sandbox'']"
  using assms unfolding post_pdf_part0_def Let_def
  by (auto split: if_splits elim!: run_E)

lemma part1_flags:
  assumes "(Launch args, x) \<in> set tr"
  shows "post_pdf_part1 env body = (rep, tr) \<Longrightarrow> args = [''--no-sandbox'', ''--disable-dev-shm-usage'', ''--disable-gpu'', ''--font-render-hinting=none'']"
    and "get_selftest_part1 env = (rep, tr) \<Longrightarrow> args = [''--no-sandbox'', ''--disable-dev-shm-usage'', ''--disable-gpu'', ''--font-render-hinting=none'']"
    and "post_pdf_debug_part1 env body = (rep, tr) \<Longrightarrow> args = [''--no-sandbox'', ''--disable-dev-shm-usage'', ''--disable-gpu'', ''--font-render-hinting=none'']"
  using assms
  unfolding post_pdf_part1_def get_selftest_part1_def post_pdf_debug_part1_def Let_def
    launchBrowser_part1_def attachDebug_def
  by (auto split: if_splits option.splits prod.splits dest: render_part1_flags elim!: run_E)

text \<open>
  Claim C6, amended. Within one file every launch passes the same fixed list of flags,
  and \<open>--no-sandbox\<close> is in each list; the lists differ between the files. The file
  \<open>part_001\<close> passes the four flags of the claim; src/server.js passes \<open>--no-sandbox\<close>
  and \<open>--disable-dev-shm-usage\<close> only; \<open>part_000\<close> passes \<open>--no-sandbox\<close> only.
\<close>

theorem launch_flags_per_file:
  assumes "(Launch args, x) \<in> set (snd (serve b env rq))"
  shows "args = (case b of
            Part_001 \<Rightarrow> [''--no-sandbox'', ''--disable-dev-shm-usage'', ''--disable-gpu'',
                          ''--font-render-hinting=none'']
          | Server_js \<Rightarrow> [''--no-sandbox'', ''--disable-dev-shm-usage'']
          | Part_000 \<Rightarrow> [''--no-sandbox''])"
proof -
  obtain rep tr where out: "serve b env rq = (rep, tr)" by (cases "serve b env rq")
  with assms have mem: "(Launch args, x) \<in> set tr" by simp
  from out show ?thesis
  proof (cases rule: serve_E)
    case (pdf_server body)
    from server_flags(1) [OF mem pdf_server(5)] pdf_server(1) show ?thesis by simp
  next
    case selftest_server
    from server_flags(2) [OF mem selftest_server(4)] selftest_server(1) show ?thesis by simp
  next
    case (debug_server body)
    from server_flags(3) [OF mem debug_server(5)] debug_server(1) show ?thesis by simp
  next
    case (pdf_part0 body)
    from part0_flags [OF mem pdf_part0(5)] pdf_part0(1) show ?thesis by simp
  next
    case (pdf_part1 body)
    from part1_flags(1) [OF mem pdf_part1(5)] pdf_part1(1) show ?thesis by simp
  next
    case selftest_part1
    from part1_flags(2) [OF mem selftest_part1(4)] selftest_part1(1) show ?thesis by simp
  next
    case (debug_part1 body)
    from part1_flags(3) [OF mem debug_part1(5)] debug_part1(1) show ?thesis by simp
  qed (use mem in \<open>auto simp: healthz_def\<close>)
qed

text \<open>
  The claim as stated fails on src/server.js: its launch has neither \<open>--disable-gpu\<close>
  nor \<open>--font-render-hinting=none\<close>.
\<close>

theorem launch_flags_counterexample:
  "hd (snd (serve Server_js (runtime fine) (post ''/pdf'' [(''html'', JStr hello)]))) =
     (Launch [''--no-sandbox'', ''--disable-dev-shm-usage''], Inr [])"
  by (simp add: run_simps)

text \<open>A launch of \<open>part_001\<close>, with the four flags.\<close>

theorem launch_flags_per_file_witness:
  "(Launch [''--no-sandbox'', ''--disable-dev-shm-usage'', ''--disable-gpu'',
            ''--font-render-hinting=none''], Inr [])
     \<in> set (snd (serve Part_001 (runtime fine) (post ''/pdf-debug'' [(''html'', JStr hello)]))) \<and>
   [''--no-sandbox'', ''--disable-dev-shm-usage'', ''--disable-gpu'', ''--font-render-hinting=none''] =
     (case Part_001 of
            Part_001 \<Rightarrow> [''--no-sandbox'', ''--disable-dev-shm-usage'', ''--disable-gpu'',
                          ''--font-render-hinting=none'']
          | Server_js \<Rightarrow> [''--no-sandbox'', ''--disable-dev-shm-usage'']
          | Part_000 \<Rightarrow> [''--no-sandbox''])"
proof -
  have m: "(Launch [''--no-sandbox'', ''--disable-dev-shm-usage'', ''--disable-gpu'',
            ''--font-render-hinting=none''], Inr [])
     \<in> set (snd (serve Part_001 (runtime fine) (post ''/pdf-debug'' [(''html'', JStr hello)])))"
    by (simp add: run_simps)
  show ?thesis using m launch_flags_per_file [OF m] by simp
qed

section \<open>The style overrides\<close>

lemma css_differ: "VISIBILITY_CSS \<noteq> SYSTEM_FONT_CSS" "SYSTEM_FONT_CSS \<noteq> VISIBILITY_CSS"
  by (simp_all add: VISIBILITY_CSS_def SYSTEM_FONT_CSS_def)

lemma defaulted_simps [simp]: "defaulted d (Some x) = x" "defaulted d None = d"
  by (simp_all add: defaulted_def)

lemma styled_Nil: "styled f []"
  by (simp add: styled_def)

lemma render_part1_styled:
  "renderPdfFromHtml_part1 env a [] = (r, tr) \<Longrightarrow>
     styled (truthy (defaulted (JBool False) (forceSystemFonts_arg a))) tr"
  unfolding renderPdfFromHtml_part1_def launchBrowser_part1_def attachDebug_def styled_def
    before_content_def
  by (auto elim!: run_E split: if_splits simp: css_differ)

lemma pdf_part1_styled:
  "post_pdf_part1 env body = (rep, tr) \<Longrightarrow> styled (fonts_flag body) tr"
  unfolding post_pdf_part1_def Let_def fonts_flag_def
  by (auto split: if_splits option.splits prod.splits simp: styled_Nil
        dest!: render_part1_styled)

lemma selftest_part1_styled:
  "get_selftest_part1 env = (rep, tr) \<Longrightarrow> styled True tr"
  unfolding get_selftest_part1_def
  by (auto split: prod.splits dest!: render_part1_styled simp: defaulted_def)

lemma debug_part1_styled:
  "post_pdf_debug_part1 env body = (rep, tr) \<Longrightarrow> styled (fonts_flag body) tr"
  unfolding post_pdf_debug_part1_def Let_def fonts_flag_def launchBrowser_part1_def
    attachDebug_def styled_def before_content_def
  by (auto elim!: run_E split: if_splits simp: css_differ)

lemma render_server_unstyled:
  "renderPdfFromHtml_server env a [] = (r, tr) \<Longrightarrow> style_tags tr = []"
  unfolding renderPdfFromHtml_server_def launchBrowser_server_def
  by (auto elim!: run_E)

lemma server_unstyled:
  shows "post_pdf_server env body = (rep, tr) \<Longrightarrow> style_tags tr = []"
    and "get_selftest_server env = (rep, tr) \<Longrightarrow> style_tags tr = []"
    and "post_pdf_debug_server env body = (rep, tr) \<Longrightarrow> style_tags tr = []"
  unfolding post_pdf_server_def get_selftest_server_def post_pdf_debug_server_def Let_def
    launchBrowser_server_def
  by (auto split: if_splits option.splits prod.splits dest: render_server_unstyled elim!: run_E)

lemma part0_unstyled:
  "post_pdf_part0 env body = (rep, tr) \<Longrightarrow> style_tags tr = []"
  unfolding post_pdf_part0_def Let_def
  by (auto split: if_splits elim!: run_E)

lemma serve_part1_styled:
  assumes "serve Part_001 env rq = (rep, tr)"
    and "json_parser env ''20mb'' (raw rq) = Inr body"
  shows "styled (path rq = ''/selftest'' \<or> fonts_flag body) tr"
  using assms(1)
proof (cases rule: serve_E)
  case (pdf_part1 body')
  with assms(2) have "body' = body" by simp
  with pdf_part1 pdf_part1_styled [of env body rep tr] show ?thesis by simp
next
  case selftest_part1
  with selftest_part1_styled [of env rep tr] show ?thesis by simp
next
  case (debug_part1 body')
  with assms(2) have "body' = body" by simp
  with debug_part1 debug_part1_styled [of env body rep tr] show ?thesis by simp
qed (use assms(2) in \<open>auto simp: healthz_def styled_Nil\<close>)

lemma serve_others_unstyled:
  assumes "serve b env rq = (rep, tr)" and "b \<noteq> Part_001"
  shows "style_tags tr = []"
  using assms(1)
proof (cases rule: serve_E)
  case (pdf_server body)
  then show ?thesis using server_unstyled(1) by blast
next
  case selftest_server
  then show ?thesis using server_unstyled(2) by blast
next
  case (debug_server body)
  then show ?thesis using server_unstyled(3) by blast
next
  case (pdf_part0 body)
  then show ?thesis using part0_unstyled by blast
qed (use assms(2) in \<open>auto simp: healthz_def\<close>)

text \<open>
  Claim C1, amended. In \<open>part_001\<close>, the one file that defines the two style sheets, every
  render that reaches the loading of the HTML (\<open>/pdf\<close>, \<open>/selftest\<close>, \<open>/pdf-debug\<close>)
  has injected the visibility sheet before it, followed by the system font sheet if and
  only if the flag \<open>forceSystemFonts\<close> of the body is truthy, or the route is
  \<open>/selftest\<close>, which always forces it. When the flag is absent it is false and the
  font sheet is not injected. In src/server.js and \<open>part_000\<close> no style sheet is
  injected at all, whatever the flag.
\<close>

theorem style_overrides:
  assumes "serve b env rq = (rep, tr)"
    and "json_parser env ''20mb'' (raw rq) = Inr body"
  shows "(b = Part_001 \<and> list_ex is_set_content tr \<longrightarrow>
            style_tags (before_content tr) =
              VISIBILITY_CSS #
              (if path rq = ''/selftest'' \<or> fonts_flag body then [SYSTEM_FONT_CSS] else [])) \<and>
         (b = Part_001 \<and> path rq \<noteq> ''/selftest'' \<and>
          field (body_or_empty body) ''forceSystemFonts'' = None \<longrightarrow>
            SYSTEM_FONT_CSS \<notin> set (style_tags tr)) \<and>
         (b \<noteq> Part_001 \<longrightarrow> style_tags tr = [])"
proof (intro conjI impI)
  assume "b = Part_001 \<and> list_ex is_set_content tr"
  with serve_part1_styled [of env rq rep tr body] assms
  show "style_tags (before_content tr) =
          VISIBILITY_CSS #
          (if path rq = ''/selftest'' \<or> fonts_flag body then [SYSTEM_FONT_CSS] else [])"
    by (simp add: styled_def)
next
  assume h: "b = Part_001 \<and> path rq \<noteq> ''/selftest'' \<and>
             field (body_or_empty body) ''forceSystemFonts'' = None"
  then have "\<not> fonts_flag body"
    by (simp add: fonts_flag_def)
  with h serve_part1_styled [of env rq rep tr body] assms
  show "SYSTEM_FONT_CSS \<notin> set (style_tags tr)"
    by (simp add: styled_def)
next
  assume "b \<noteq> Part_001"
  with assms(1) show "style_tags tr = []" by (rule serve_others_unstyled)
qed

text \<open>The flag set, the flag absent, and a file without the sheets.\<close>

theorem style_overrides_witness:
  "style_tags (before_content (snd (serve Part_001 (runtime fine)
      (post ''/pdf'' [(''html'', JStr hello), (''forceSystemFonts'', JBool True)])))) =
     [VISIBILITY_CSS, SYSTEM_FONT_CSS] \<and>
   style_tags (before_content (snd (serve Part_001 (runtime fine)
      (post ''/pdf-debug'' [(''html'', JStr hello)])))) = [VISIBILITY_CSS] \<and>
   style_tags (snd (serve Part_000 (runtime fine) (post ''/pdf'' [(''html'', JStr hello)]))) = []"
proof -
  let ?on = "post ''/pdf'' [(''html'', JStr hello), (''forceSystemFonts'', JBool True)]"
  let ?off = "post ''/pdf-debug'' [(''html'', JStr hello)]"
  let ?old = "post ''/pdf'' [(''html'', JStr hello)]"
  have p: "json_parser (runtime fine) ''20mb'' (raw ?on) =
             Inr (Some (JObj [(''html'', JStr hello), (''forceSystemFonts'', JBool True)]))"
          "json_parser (runtime fine) ''20mb'' (raw ?off) = Inr (Some (JObj [(''html'', JStr hello)]))"
          "json_parser (runtime fine) ''20mb'' (raw ?old) = Inr (Some (JObj [(''html'', JStr hello)]))"
    by (simp_all add: runtime_def post_def express_json_small)
  have c: "list_ex is_set_content (snd (serve Part_001 (runtime fine) ?on))"
          "list_ex is_set_content (snd (serve Part_001 (runtime fine) ?off))"
    by (simp_all add: run_simps)
  have f: "fonts_flag (Some (JObj [(''html'', JStr hello), (''forceSystemFonts'', JBool True)]))"
          "\<not> fonts_flag (Some (JObj [(''html'', JStr hello)]))"
          "path ?on \<noteq> ''/selftest''" "path ?off \<noteq> ''/selftest''"
    by (simp_all add: fonts_flag_def body_or_empty_def post_def)
  show ?thesis
    using style_overrides [OF surjective_pairing p(1), of Part_001]
      style_overrides [OF surjective_pairing p(2), of Part_001]
      style_overrides [OF surjective_pairing p(3), of Part_000] c f
    by simp
qed

text \<open>
  The claim as stated fails on src/server.js: with the flag set, the HTML is loaded and
  nothing was injected.
\<close>

theorem style_overrides_counterexample:
  "list_ex is_set_content
     (snd (serve Server_js (runtime fine)
        (post ''/pdf'' [(''html'', JStr hello), (''forceSystemFonts'', JBool True)]))) \<and>
   style_tags
     (snd (serve Server_js (runtime fine)
        (post ''/pdf'' [(''html'', JStr hello), (''forceSystemFonts'', JBool True)]))) = []"
  by (simp add: run_simps)

section \<open>The two waits\<close>



lemma status_pdf_or_failure_Inl [simp]:
  "status (pdf_or_failure env what f (Inl e)) = 500"
  by (simp add: pdf_or_failure_def send_def)







lemma status_shot_or_failure [simp]:
  "status (shot_or_failure env h (Inl e)) = 500"
  "status (shot_or_failure env h (Inr png)) = 200"
  by (simp_all add: shot_or_failure_def send_def)







section \<open>The error payload\<close>

lemma render_server_fails:
  "renderPdfFromHtml_server env a [] = (r, tr) \<Longrightarrow> render_fails False r tr"
  unfolding renderPdfFromHtml_server_def launchBrowser_server_def render_fails_def
  by (auto elim!: run_E split: sum.splits)

lemma render_part1_fails:
  "renderPdfFromHtml_part1 env a [] = (r, tr) \<Longrightarrow> render_fails False r tr"
  unfolding renderPdfFromHtml_part1_def launchBrowser_part1_def attachDebug_def render_fails_def
  by (auto elim!: run_E split: sum.splits if_splits)

lemma pdf_or_failure_cases:
  "pdf_or_failure env what f (Inl e) = \<lparr>status = 500, headers = [], content = Json (failure what e)\<rparr>"
  "(status (pdf_or_failure env what f (Inr pdf)) = 200 \<and>
      content (pdf_or_failure env what f (Inr pdf)) = Bytes pdf) \<or>
   (status (pdf_or_failure env what f (Inr pdf)) = 500 \<and>
      (\<exists>e'. content (pdf_or_failure env what f (Inr pdf)) = Json (failure what e')))"
  by (auto simp: pdf_or_failure_def send_pdf_def setHeader_def send_def new_res_def
        split: option.splits prod.splits)

lemma render_fails_reply:
  assumes "render_fails inline r tr"
  shows "all_or_nothing inline (Handler (pdf_or_failure env ''PDF rendering failed'' f r)) tr"
proof (cases r)
  case (Inl e)
  with assms show ?thesis
    unfolding render_fails_def all_or_nothing_def
    by (auto simp: pdf_or_failure_cases(1))
next
  case (Inr pdf)
  with assms pdf_or_failure_cases(2) [of env "''PDF rendering failed''" f pdf] show ?thesis
    unfolding render_fails_def all_or_nothing_def
    by (simp, blast)
qed

lemma all_or_nothing_Nil:
  "all_or_nothing i (Unsettled e) []" "all_or_nothing i (Rejected e) []"
  "all_or_nothing i Unrouted []"
  by (simp_all add: all_or_nothing_def)

lemma valid_htmlI: "v = Some (JStr h) \<Longrightarrow> h \<noteq> [] \<Longrightarrow> \<not> invalid_html v"
  by (simp add: invalid_html_def truthy_u_def)

lemma pdf_server_aon:
  "post_pdf_server env body = (rep, tr) \<Longrightarrow> \<not> invalid_html (field (body_or_empty body) ''html'') \<Longrightarrow>
     all_or_nothing False rep tr"
  unfolding post_pdf_server_def Let_def
  by (auto split: if_splits option.splits prod.splits simp: all_or_nothing_Nil
        dest!: render_server_fails intro: render_fails_reply)

lemma pdf_part1_aon:
  "post_pdf_part1 env body = (rep, tr) \<Longrightarrow> \<not> invalid_html (field (body_or_empty body) ''html'') \<Longrightarrow>
     all_or_nothing False rep tr"
  unfolding post_pdf_part1_def Let_def
  by (auto split: if_splits option.splits prod.splits simp: all_or_nothing_Nil
        dest!: render_part1_fails intro: render_fails_reply)

lemma part0_fails:
  assumes "guarded (call env (Launch [''--no-sandbox'']))
             (and_then (call env (NewPage u)) (\<lambda>page.
              and_then (call env (SetContent h ''networkidle'' 30000)) (\<lambda>u1.
              and_then (ignoring (call env (EvaluateHandle fonts_ready))) (\<lambda>u2.
              call env (Pdf opts)))))
             (call env Close) respond = (rep, tr)"
  shows "\<exists>r. render_fails True r tr \<and> rep = Handler (respond r)"
  using assms
proof (cases rule: guarded_E)
  case (nolaunch e)
  then have "render_fails True (Inl e) tr"
    unfolding render_fails_def by (auto elim!: run_E)
  with nolaunch show ?thesis by blast
next
  case (failed b tr1 e tr2 r2)
  then have "render_fails True (Inl e) tr"
    unfolding render_fails_def by (auto elim!: run_E)
  with failed show ?thesis by blast
next
  case (finished b tr1 v tr2 r2)
  then have "render_fails True (Inr v) tr"
    unfolding render_fails_def by (auto elim!: run_E)
  with finished show ?thesis by blast
qed

lemma pdf_part0_aon:
  "post_pdf_part0 env body = (rep, tr) \<Longrightarrow> \<not> invalid_html (field (body_or_empty body) ''html'') \<Longrightarrow>
     all_or_nothing True rep tr"
  unfolding post_pdf_part0_def Let_def
  by (auto split: if_splits dest!: part0_fails intro: render_fails_reply)

text \<open>
  Claim C4, amended. For a \<open>POST /pdf\<close> whose \<open>html\<close> is a non-empty string, in each
  file: when a step of the recipe throws (launch, page, media, style sheet, load, print;
  the best-effort wait for the fonts is not one, and neither is the closing of the
  session), the reply is status 500 with no header set and the JSON body
  \<open>{error: "PDF rendering failed", details: m}\<close>. The message \<open>m\<close> is that of the error
  the step threw, in \<open>part_000\<close> always and in the two other files when the closing of
  the session does not throw; when it throws too, in src/server.js and \<open>part_001\<close>,
  \<open>m\<close> is the message of the error \<open>close\<close> threw. Every reply a handler sends is
  either status 200 with the bytes the print step returned, or status 500 with that
  error payload: never bytes together with an error, and never a part of the bytes.
\<close>

theorem render_failure_payload:
  assumes "serve b env rq = (rep, tr)"
    and "json_parser env ''20mb'' (raw rq) = Inr body"
    and "verb rq = ''POST''" and "path rq = ''/pdf''"
    and "field (body_or_empty body) ''html'' = Some (JStr h)" and "h \<noteq> []"
  shows "(\<forall>a e. (a, Inl e) \<in> set tr \<and> pipeline_step a \<longrightarrow>
            (\<exists>e'. rep = Handler \<lparr>status = 500, headers = [],
                       content = Json (JObj [(''error'', JStr ''PDF rendering failed''),
                                             (''details'', JStr (details_of e'))])\<rparr> \<and>
               (b = Part_000 \<or> (\<forall>ec. (Close, Inl ec) \<notin> set tr) \<longrightarrow> e' = e) \<and>
               (\<forall>ec. b \<noteq> Part_000 \<and> (Close, Inl ec) \<in> set tr \<longrightarrow> e' = ec))) \<and>
         (\<forall>res. rep = Handler res \<longrightarrow>
            (status res = 200 \<and>
               (\<exists>opts pdf. (Pdf opts, Inr pdf) \<in> set tr \<and> content res = Bytes pdf)) \<or>
            (status res = 500 \<and>
               (\<exists>e'. content res = Json (JObj [(''error'', JStr ''PDF rendering failed''),
                                               (''details'', JStr (details_of e'))]))))"
proof -
  have ok: "\<not> invalid_html (field (body_or_empty body) ''html'')"
    using assms(5,6) by (rule valid_htmlI)
  have "all_or_nothing (b = Part_000) rep tr"
    using assms(1)
  proof (cases rule: serve_E)
    case (pdf_server body')
    with assms(2) ok show ?thesis by (simp add: pdf_server_aon)
  next
    case (pdf_part0 body')
    with assms(2) ok show ?thesis by (simp add: pdf_part0_aon)
  next
    case (pdf_part1 body')
    with assms(2) ok show ?thesis by (simp add: pdf_part1_aon)
  qed (use assms(2-4) in \<open>auto simp: all_or_nothing_Nil\<close>)
  then show ?thesis
    unfolding all_or_nothing_def failure_def by simp
qed

text \<open>
  The claim as stated fails on src/server.js: the print step rejects the format and the
  closing of the session throws as well; the \<open>finally\<close> of \<open>renderPdfFromHtml\<close>
  replaces the error, and \<open>details\<close> carries the message of \<open>close\<close>, not that of
  the step that failed.
\<close>

theorem render_failure_payload_counterexample:
  "(Pdf (print_opts (JStr ''Lettre'') (JObj [])), Inl format_exn)
      \<in> set (snd (serve Server_js (runtime bad_format_bad_close)
                  (post ''/pdf'' [(''html'', JStr hello), (''format'', JStr ''Lettre'')]))) \<and>
   details_of format_exn = ''Unknown paper format'' \<and>
   fst (serve Server_js (runtime bad_format_bad_close)
          (post ''/pdf'' [(''html'', JStr hello), (''format'', JStr ''Lettre'')])) =
     Handler \<lparr>status = 500, headers = [],
        content = Json (JObj [(''error'', JStr ''PDF rendering failed''),
          (''details'', JStr ''Target page, context or browser has been closed'')])\<rparr>"
  by (simp add: run_simps)

text \<open>
  The same browser on \<open>part_000\<close>, where the reply is sent before the session is
  closed: the payload carries the message of the print step.
\<close>

theorem render_failure_payload_witness:
  "(Pdf (print_opts (JStr ''Lettre'') (JObj [])), Inl format_exn)
      \<in> set (snd (serve Part_000 (runtime bad_format_bad_close)
                  (post ''/pdf'' [(''html'', JStr hello), (''format'', JStr ''Lettre'')]))) \<and>
   fst (serve Part_000 (runtime bad_format_bad_close)
          (post ''/pdf'' [(''html'', JStr hello), (''format'', JStr ''Lettre'')])) =
     Handler \<lparr>status = 500, headers = [],
        content = Json (JObj [(''error'', JStr ''PDF rendering failed''),
                              (''details'', JStr (details_of format_exn))])\<rparr> \<and>
   details_of format_exn = ''Unknown paper format''"
proof -
  let ?rq = "post ''/pdf'' [(''html'', JStr hello), (''format'', JStr ''Lettre'')]"
  let ?out = "serve Part_000 (runtime bad_format_bad_close) ?rq"
  have p: "json_parser (runtime bad_format_bad_close) ''20mb'' (raw ?rq) =
             Inr (Some (JObj [(''html'', JStr hello), (''format'', JStr ''Lettre'')]))"
    by (simp add: runtime_def post_def express_json_small)
  have v: "verb ?rq = ''POST''" "path ?rq = ''/pdf''" by (simp_all add: post_def)
  have h: "field (body_or_empty (Some (JObj [(''html'', JStr hello), (''format'', JStr ''Lettre'')])))
             ''html'' = Some (JStr hello)" "hello \<noteq> []"
    by (simp_all add: body_or_empty_def hello_def)
  have f: "(Pdf (print_opts (JStr ''Lettre'') (JObj [])), Inl format_exn) \<in> set (snd ?out)"
    by (simp add: run_simps)
  have s: "pipeline_step (Pdf (print_opts (JStr ''Lettre'') (JObj [])))" by simp
  have d: "details_of format_exn = ''Unknown paper format''"
    by (simp add: details_of_def format_exn_def)
  from render_failure_payload [OF surjective_pairing p v h, of Part_000] f s
  obtain e' where "fst ?out = Handler \<lparr>status = 500, headers = [],
        content = Json (JObj [(''error'', JStr ''PDF rendering failed''),
                              (''details'', JStr (details_of e'))])\<rparr>"
    and "e' = format_exn"
    by blast
  with f d show ?thesis by simp
qed

section \<open>The reply of \<open>/pdf\<close>\<close>

text \<open>What \<open>POST /pdf\<close> can answer, in each of the three files.\<close>

lemma pdf_reply_shape:
  shows "post_pdf_server env body = (rep, tr) \<Longrightarrow>
           (rep = Handler (send 400 (Json missing_html) new_res) \<or> rep = Unsettled type_error \<or>
            (\<exists>r. rep = Handler (pdf_or_failure env ''PDF rendering failed'' (filename_of body) r)))"
    and "post_pdf_part0 env body = (rep, tr) \<Longrightarrow>
           (rep = Handler (send 400 (Json missing_html) new_res) \<or> rep = Unsettled type_error \<or>
            (\<exists>r. rep = Handler (pdf_or_failure env ''PDF rendering failed'' (filename_of body) r)))"
    and "post_pdf_part1 env body = (rep, tr) \<Longrightarrow>
           (rep = Handler (send 400 (Json missing_html) new_res) \<or> rep = Unsettled type_error \<or>
            (\<exists>r. rep = Handler (pdf_or_failure env ''PDF rendering failed'' (filename_of body) r)))"
  unfolding post_pdf_server_def post_pdf_part0_def post_pdf_part1_def Let_def filename_of_def
  by (auto split: if_splits option.splits prod.splits elim!: guarded_E)

lemma serve_pdf_shape:
  assumes "serve b env rq = (rep, tr)"
    and "json_parser env ''20mb'' (raw rq) = Inr body"
    and "verb rq = ''POST''" and "path rq = ''/pdf''"
  shows "rep = Handler (send 400 (Json missing_html) new_res) \<or> rep = Unsettled type_error \<or>
         (\<exists>r. rep = Handler (pdf_or_failure env ''PDF rendering failed'' (filename_of body) r))"
  using assms(1)
proof (cases rule: serve_E)
  case (pdf_server body')
  with assms(2) pdf_reply_shape(1) [of env body rep tr] show ?thesis by simp
next
  case (pdf_part0 body')
  with assms(2) pdf_reply_shape(2) [of env body rep tr] show ?thesis by simp
next
  case (pdf_part1 body')
  with assms(2) pdf_reply_shape(3) [of env body rep tr] show ?thesis by simp
next
  case unrouted
  with assms(3,4) show ?thesis by (cases b) simp_all
qed (use assms(2-4) in auto)


lemma pdf_or_failure_200:
  assumes "status (pdf_or_failure env what f r) = 200"
  shows "\<exists>name pdf. js_string (num_str env) f = Some name \<and> r = Inr pdf \<and>
           header_check env ''Content-Disposition'' (disposition name) = None \<and>
           pdf_or_failure env what f r =
             \<lparr>status = 200,
              headers = [(''Content-Type'', ''application/pdf''),
                         (''Content-Disposition'', disposition name)],
              content = Bytes pdf\<rparr>"
  using assms
  by (cases r)
     (auto simp: pdf_or_failure_def send_pdf_def setHeader_def send_def new_res_def
        split: option.splits prod.splits)

text \<open>
  Claim C10. On every 200 reply of \<open>POST /pdf\<close>, in each file, the headers are
  \<open>Content-Type: application/pdf\<close> and \<open>Content-Disposition\<close>, whose value is exactly
  \<open>inline; filename="\<close>, the printed \<open>filename\<close> and \<open>"\<close>. A \<open>filename\<close> that is a
  string is copied character for character, with no escaping, whatever it contains
  (a double quote, a carriage return, a line feed); an absent one is \<open>document.pdf\<close>.
\<close>

theorem disposition_verbatim:
  assumes "serve b env rq = (Handler res, tr)"
    and "json_parser env ''20mb'' (raw rq) = Inr body"
    and "verb rq = ''POST''" and "path rq = ''/pdf''"
    and "status res = 200"
  shows "(\<exists>name. js_string (num_str env) (filename_of body) = Some name \<and>
            headers res = [(''Content-Type'', ''application/pdf''),
                           (''Content-Disposition'',
                            ''inline; filename='' @ [CHR 0x22] @ name @ [CHR 0x22])]) \<and>
         (\<forall>s. field (body_or_empty body) ''filename'' = Some (JStr s) \<longrightarrow>
            map_of (headers res) ''Content-Disposition'' =
              Some (''inline; filename='' @ [CHR 0x22] @ s @ [CHR 0x22])) \<and>
         (field (body_or_empty body) ''filename'' = None \<longrightarrow>
            map_of (headers res) ''Content-Disposition'' =
              Some (''inline; filename='' @ [CHR 0x22] @ ''document.pdf'' @ [CHR 0x22]))"
proof -
  from serve_pdf_shape [OF assms(1-4)] assms(5)
  obtain r where "res = pdf_or_failure env ''PDF rendering failed'' (filename_of body) r"
    by (auto simp: send_def)
  with assms(5) pdf_or_failure_200 [of env "''PDF rendering failed''" "filename_of body" r]
  obtain name where n: "js_string (num_str env) (filename_of body) = Some name"
    and h: "headers res = [(''Content-Type'', ''application/pdf''),
                           (''Content-Disposition'', disposition name)]"
    by auto
  from n h show ?thesis
    by (auto simp: disposition_def filename_of_def)
qed

text \<open>A file name with a double quote inside.\<close>

theorem disposition_verbatim_witness:
  "fst (serve Part_001 (runtime fine)
     (post ''/pdf'' [(''html'', JStr hello),
                     (''filename'', JStr (''a'' @ [CHR 0x22] @ ''b.pdf''))])) =
   Handler \<lparr>status = 200,
      headers = [(''Content-Type'', ''application/pdf''),
                 (''Content-Disposition'',
                  ''inline; filename='' @ [CHR 0x22] @ (''a'' @ [CHR 0x22] @ ''b.pdf'') @ [CHR 0x22])],
      content = Bytes ''%PDF-1.4''\<rparr> \<and>
   map_of [(''Content-Type'', ''application/pdf''),
                 (''Content-Disposition'',
                  ''inline; filename='' @ [CHR 0x22] @ (''a'' @ [CHR 0x22] @ ''b.pdf'') @ [CHR 0x22])]
      ''Content-Disposition'' =
     Some (''inline; filename='' @ [CHR 0x22] @ (''a'' @ [CHR 0x22] @ ''b.pdf'') @ [CHR 0x22])"
proof -
  let ?ps = "[(''html'', JStr hello), (''filename'', JStr (''a'' @ [CHR 0x22] @ ''b.pdf''))]"
  let ?rq = "post ''/pdf'' ?ps"
  let ?res = "\<lparr>status = 200,
      headers = [(''Content-Type'', ''application/pdf''),
                 (''Content-Disposition'',
                  ''inline; filename='' @ [CHR 0x22] @ (''a'' @ [CHR 0x22] @ ''b.pdf'') @ [CHR 0x22])],
      content = Bytes ''%PDF-1.4''\<rparr>"
  have r: "fst (serve Part_001 (runtime fine) ?rq) = Handler ?res"
    by (simp add: run_simps)
  then have out: "serve Part_001 (runtime fine) ?rq =
               (Handler ?res, snd (serve Part_001 (runtime fine) ?rq))"
    by (simp add: prod_eq_iff)
  have p: "json_parser (runtime fine) ''20mb'' (raw ?rq) = Inr (Some (JObj ?ps))"
    by (simp add: runtime_def post_def express_json_small)
  have v: "verb ?rq = ''POST''" "path ?rq = ''/pdf''" "status ?res = 200"
    by (simp_all add: post_def)
  have f: "field (body_or_empty (Some (JObj ?ps))) ''filename'' = Some (JStr (''a'' @ [CHR 0x22] @ ''b.pdf''))"
    by (simp add: body_or_empty_def)
  from disposition_verbatim [OF out p v] f r show ?thesis by simp
qed

section \<open>The margins\<close>

lemma map_of_fold_update:
  "map_of (fold (\<lambda>(k, x) acc. AList.update k x acc) ps base) = map_of base ++ map_of (rev ps)"
proof (induction ps arbitrary: base)
  case Nil
  show ?case by simp
next
  case (Cons p ps)
  obtain k x where p: "p = (k, x)" by (cases p)
  have "map_of (fold (\<lambda>(k, x) acc. AList.update k x acc) (p # ps) base) =
          map_of (AList.update k x base) ++ map_of (rev ps)"
    using Cons.IH [of "AList.update k x base"] p by simp
  also have "\<dots> = map_of base ++ map_of (rev (p # ps))"
    by (simp add: p update_conv' map_add_def fun_eq_iff split: option.splits)
  finally show ?case .
qed

lemma map_of_spread:
  "map_of (spread base v) k =
     (case map_of (rev (own_props v)) k of Some x \<Rightarrow> Some x | None \<Rightarrow> map_of base k)"
  by (simp add: spread_def map_of_fold_update map_add_def)

lemma string_of_nat_last: "of_char (last (string_of_nat n)) = 48 + n mod 10"
proof -
  have d: "\<And>m. m < 10 \<Longrightarrow> (of_char (digit_char m) :: nat) = 48 + m"
    by simp
  show ?thesis
    by (subst string_of_nat.simps) (simp add: d del: digit_char.simps)
qed

lemma index_not_edge:
  assumes "edge \<in> {''top'', ''right'', ''bottom'', ''left''}"
  shows "string_of_nat n \<noteq> edge"
proof
  assume "string_of_nat n = edge"
  then have "(of_char (last edge) :: nat) = 48 + n mod 10"
    using string_of_nat_last [of n] by simp
  with assms show False by auto
qed

lemma indexed_keys: "k \<in> fst ` set (indexed i xs) \<Longrightarrow> \<exists>n. k = string_of_nat n"
  by (induction xs arbitrary: i) auto

lemma indexed_no_edge:
  assumes "edge \<in> {''top'', ''right'', ''bottom'', ''left''}"
  shows "map_of (rev (indexed i xs)) edge = None"
proof -
  have "edge \<notin> fst ` set (indexed i xs)"
  proof
    assume "edge \<in> fst ` set (indexed i xs)"
    then obtain n where "edge = string_of_nat n"
      using indexed_keys by blast
    with index_not_edge [OF assms, of n] show False by simp
  qed
  then show ?thesis
    by (simp add: map_of_eq_None_iff)
qed

lemma own_props_edge:
  assumes "edge \<in> {''top'', ''right'', ''bottom'', ''left''}"
  shows "map_of (rev (own_props m)) edge = field m edge"
  by (cases m) (simp_all add: indexed_no_edge [OF assms])

lemma render_server_print:
  "renderPdfFromHtml_server env a [] = (r, tr) \<Longrightarrow> (Pdf opts, x) \<in> set tr \<Longrightarrow>
     opts = print_opts (defaulted (JStr ''Letter'') (format_arg a))
                       (defaulted (JObj []) (margin_arg a))"
  unfolding renderPdfFromHtml_server_def launchBrowser_server_def
  by (auto elim!: run_E)

lemma render_part1_print:
  "renderPdfFromHtml_part1 env a [] = (r, tr) \<Longrightarrow> (Pdf opts, x) \<in> set tr \<Longrightarrow>
     opts = print_opts (defaulted (JStr ''Letter'') (format_arg a))
                       (defaulted (JObj []) (margin_arg a))"
  unfolding renderPdfFromHtml_part1_def launchBrowser_part1_def attachDebug_def
  by (auto elim!: run_E split: if_splits)

lemma pdf_margins:
  assumes "(Pdf opts, x) \<in> set tr"
  shows "post_pdf_server env body = (rep, tr) \<Longrightarrow>
           pdf_margin opts = spread default_margin (margin_of body)"
    and "post_pdf_part0 env body = (rep, tr) \<Longrightarrow>
           pdf_margin opts = spread default_margin (margin_of body)"
    and "post_pdf_part1 env body = (rep, tr) \<Longrightarrow>
           pdf_margin opts = spread default_margin (margin_of body)"
  using assms
  unfolding post_pdf_server_def post_pdf_part0_def post_pdf_part1_def Let_def margin_of_def
  by (auto split: if_splits option.splits prod.splits elim!: run_E
        dest!: render_server_print render_part1_print simp: print_opts_def)

text \<open>
  Claim C5. For a \<open>POST /pdf\<close>, in each file, the margin handed to the print step has,
  at each of the four edges, the value the request's \<open>margin\<close> gives for that edge
  and, where it gives none, the default: top 12mm, right 12mm, bottom 16mm, left 12mm.
  So a \<open>margin\<close> that holds only \<open>top\<close> changes the top edge alone.
\<close>

theorem margin_edges:
  assumes "serve b env rq = (rep, tr)"
    and "json_parser env ''20mb'' (raw rq) = Inr body"
    and "verb rq = ''POST''" and "path rq = ''/pdf''"
    and "(Pdf opts, x) \<in> set tr"
    and "edge \<in> {''top'', ''right'', ''bottom'', ''left''}"
  shows "map_of (pdf_margin opts) edge =
           (case field (margin_of body) edge of
              Some v \<Rightarrow> Some v
            | None \<Rightarrow> map_of [(''top'', JStr ''12mm''), (''right'', JStr ''12mm''),
                               (''bottom'', JStr ''16mm''), (''left'', JStr ''12mm'')] edge)"
proof -
  have "pdf_margin opts = spread default_margin (margin_of body)"
    using assms(1)
  proof (cases rule: serve_E)
    case (pdf_server body')
    with assms(2) pdf_margins(1) [OF assms(5), of env body rep] show ?thesis by simp
  next
    case (pdf_part0 body')
    with assms(2) pdf_margins(2) [OF assms(5), of env body rep] show ?thesis by simp
  next
    case (pdf_part1 body')
    with assms(2) pdf_margins(3) [OF assms(5), of env body rep] show ?thesis by simp
  qed (use assms(2-5) in \<open>auto simp: healthz_def\<close>)
  then show ?thesis
    by (simp add: map_of_spread own_props_edge [OF assms(6)] default_margin_def)
qed

text \<open>The scenario of the specification: \<open>margin: {top: "5mm"}\<close>.\<close>

theorem margin_edges_witness:
  "(Pdf \<lparr>pdf_format = JStr ''Letter'', printBackground = True, preferCSSPageSize = True,
          pdf_margin = [(''top'', JStr ''5mm''), (''right'', JStr ''12mm''),
                        (''bottom'', JStr ''16mm''), (''left'', JStr ''12mm'')],
          displayHeaderFooter = False\<rparr>, Inr ''%PDF-1.4'')
     \<in> set (snd (serve Server_js (runtime fine)
          (post ''/pdf'' [(''html'', JStr hello), (''margin'', JObj [(''top'', JStr ''5mm'')])]))) \<and>
   map_of [(''top'', JStr ''5mm''), (''right'', JStr ''12mm''),
           (''bottom'', JStr ''16mm''), (''left'', JStr ''12mm'')] ''top'' = Some (JStr ''5mm'') \<and>
   map_of [(''top'', JStr ''5mm''), (''right'', JStr ''12mm''),
           (''bottom'', JStr ''16mm''), (''left'', JStr ''12mm'')] ''bottom'' = Some (JStr ''16mm'')"
proof -
  let ?ps = "[(''html'', JStr hello), (''margin'', JObj [(''top'', JStr ''5mm'')])]"
  let ?rq = "post ''/pdf'' ?ps"
  let ?opts = "\<lparr>pdf_format = JStr ''Letter'', printBackground = True, preferCSSPageSize = True,
          pdf_margin = [(''top'', JStr ''5mm''), (''right'', JStr ''12mm''),
                        (''bottom'', JStr ''16mm''), (''left'', JStr ''12mm'')],
          displayHeaderFooter = False\<rparr>"
  have m: "(Pdf ?opts, Inr ''%PDF-1.4'') \<in> set (snd (serve Server_js (runtime fine) ?rq))"
    by (simp add: run_simps)
  have p: "json_parser (runtime fine) ''20mb'' (raw ?rq) = Inr (Some (JObj ?ps))"
    by (simp add: runtime_def post_def express_json_small)
  have v: "verb ?rq = ''POST''" "path ?rq = ''/pdf''"
    by (simp_all add: post_def)
  have e: "''top'' \<in> {''top'', ''right'', ''bottom'', ''left''}"
          "''bottom'' \<in> {''top'', ''right'', ''bottom'', ''left''}"
    by simp_all
  have f: "field (margin_of (Some (JObj ?ps))) ''top'' = Some (JStr ''5mm'')"
          "field (margin_of (Some (JObj ?ps))) ''bottom'' = None"
    by (simp_all add: margin_of_def body_or_empty_def)
  from margin_edges [OF surjective_pairing p v m e(1)]
       margin_edges [OF surjective_pairing p v m e(2)] f m
  show ?thesis by simp
qed

section \<open>The file name\<close>

lemma render_ignores_filename:
  "renderPdfFromHtml_server env
     \<lparr>html_arg = h, baseURL_arg = u, format_arg = fm, margin_arg = m, filename_arg = f1,
      forceSystemFonts_arg = ff\<rparr> =
   renderPdfFromHtml_server env
     \<lparr>html_arg = h, baseURL_arg = u, format_arg = fm, margin_arg = m, filename_arg = f2,
      forceSystemFonts_arg = ff\<rparr>"
  "renderPdfFromHtml_part1 env
     \<lparr>html_arg = h, baseURL_arg = u, format_arg = fm, margin_arg = m, filename_arg = f1,
      forceSystemFonts_arg = ff\<rparr> =
   renderPdfFromHtml_part1 env
     \<lparr>html_arg = h, baseURL_arg = u, format_arg = fm, margin_arg = m, filename_arg = f2,
      forceSystemFonts_arg = ff\<rparr>"
  by (simp_all add: renderPdfFromHtml_server_def renderPdfFromHtml_part1_def)

lemma guarded_respond:
  "\<exists>r tr. \<forall>respond. guarded launch work close respond = (Handler (respond r), tr)"
proof (cases "launch []")
  case (Pair l tr1)
  show ?thesis
  proof (cases l)
    case (Inl e)
    with Pair have "\<forall>respond. guarded launch work close respond = (Handler (respond (Inl e)), tr1)"
      by (simp add: guarded_def)
    then show ?thesis by blast
  next
    case (Inr b)
    obtain r1 tr2 where "work tr1 = (r1, tr2)" by (cases "work tr1")
    with Pair Inr
    have "\<forall>respond. guarded launch work close respond = (Handler (respond r1), snd (close tr2))"
      by (simp add: guarded_def)
    then show ?thesis by blast
  qed
qed

lemma pdf_two_bodies:
  assumes same: "\<forall>k. k \<noteq> ''filename'' \<longrightarrow> field (body_or_empty b1) k = field (body_or_empty b2) k"
  shows "post_pdf_server env b1 = post_pdf_server env b2 \<or>
         (\<exists>r tr. post_pdf_server env b1 =
                    (Handler (pdf_or_failure env ''PDF rendering failed'' (filename_of b1) r), tr) \<and>
                  post_pdf_server env b2 =
                    (Handler (pdf_or_failure env ''PDF rendering failed'' (filename_of b2) r), tr))"
    and "post_pdf_part0 env b1 = post_pdf_part0 env b2 \<or>
         (\<exists>r tr. post_pdf_part0 env b1 =
                    (Handler (pdf_or_failure env ''PDF rendering failed'' (filename_of b1) r), tr) \<and>
                  post_pdf_part0 env b2 =
                    (Handler (pdf_or_failure env ''PDF rendering failed'' (filename_of b2) r), tr))"
    and "post_pdf_part1 env b1 = post_pdf_part1 env b2 \<or>
         (\<exists>r tr. post_pdf_part1 env b1 =
                    (Handler (pdf_or_failure env ''PDF rendering failed'' (filename_of b1) r), tr) \<and>
                  post_pdf_part1 env b2 =
                    (Handler (pdf_or_failure env ''PDF rendering failed'' (filename_of b2) r), tr))"
proof -
  from same have eq:
    "field (body_or_empty b1) ''html'' = field (body_or_empty b2) ''html''"
    "field (body_or_empty b1) ''baseURL'' = field (body_or_empty b2) ''baseURL''"
    "field (body_or_empty b1) ''format'' = field (body_or_empty b2) ''format''"
    "field (body_or_empty b1) ''margin'' = field (body_or_empty b2) ''margin''"
    "field (body_or_empty b1) ''forceSystemFonts'' = field (body_or_empty b2) ''forceSystemFonts''"
    by simp_all
  show "post_pdf_server env b1 = post_pdf_server env b2 \<or>
         (\<exists>r tr. post_pdf_server env b1 =
                    (Handler (pdf_or_failure env ''PDF rendering failed'' (filename_of b1) r), tr) \<and>
                  post_pdf_server env b2 =
                    (Handler (pdf_or_failure env ''PDF rendering failed'' (filename_of b2) r), tr))"
    unfolding post_pdf_server_def Let_def filename_of_def eq
      render_ignores_filename(1) [of _ _ _ _ _ "Some (defaulted (JStr ''document.pdf'') (field (body_or_empty b1) ''filename''))" _
         "Some (defaulted (JStr ''document.pdf'') (field (body_or_empty b2) ''filename''))"]
    by (auto split: option.splits prod.splits)
  show "post_pdf_part1 env b1 = post_pdf_part1 env b2 \<or>
         (\<exists>r tr. post_pdf_part1 env b1 =
                    (Handler (pdf_or_failure env ''PDF rendering failed'' (filename_of b1) r), tr) \<and>
                  post_pdf_part1 env b2 =
                    (Handler (pdf_or_failure env ''PDF rendering failed'' (filename_of b2) r), tr))"
    unfolding post_pdf_part1_def Let_def filename_of_def eq
      render_ignores_filename(2) [of _ _ _ _ _ "Some (defaulted (JStr ''document.pdf'') (field (body_or_empty b1) ''filename''))" _
         "Some (defaulted (JStr ''document.pdf'') (field (body_or_empty b2) ''filename''))"]
    by (auto split: option.splits prod.splits)
  show "post_pdf_part0 env b1 = post_pdf_part0 env b2 \<or>
         (\<exists>r tr. post_pdf_part0 env b1 =
                    (Handler (pdf_or_failure env ''PDF rendering failed'' (filename_of b1) r), tr) \<and>
                  post_pdf_part0 env b2 =
                    (Handler (pdf_or_failure env ''PDF rendering failed'' (filename_of b2) r), tr))"
    unfolding post_pdf_part0_def Let_def filename_of_def eq
    using guarded_respond by (auto split: if_splits) blast
qed

lemma pdf_or_failure_same:
  assumes "js_string (num_str env) f1 = Some n1"
    and "header_check env ''Content-Disposition'' (disposition n1) = None"
    and "js_string (num_str env) f2 = Some n2"
    and "header_check env ''Content-Disposition'' (disposition n2) = None"
  shows "same_but_disposition (Handler (pdf_or_failure env what f1 r))
                              (Handler (pdf_or_failure env what f2 r))"
  by (cases r; cases "header_check env ''Content-Type'' ''application/pdf''")
     (simp_all add: pdf_or_failure_def send_pdf_def setHeader_def send_def new_res_def assms)

lemma same_but_disposition_refl: "same_but_disposition r r"
  by (cases r) simp_all

lemma serve_pdf:
  assumes "verb rq = ''POST''" and "path rq = ''/pdf''"
    and "json_parser env ''20mb'' (raw rq) = Inr body"
  shows "serve b env rq =
           (case b of Server_js \<Rightarrow> post_pdf_server env body
                    | Part_000 \<Rightarrow> post_pdf_part0 env body
                    | Part_001 \<Rightarrow> post_pdf_part1 env body)"
  by (cases b) (simp_all add: serve_def assms)

text \<open>
  Claim C8, amended. Two \<open>POST /pdf\<close> requests whose bodies agree on every property
  but \<open>filename\<close> make the same browser calls with the same answers. When both file
  names have a printed form and the HTTP layer accepts both \<open>Content-Disposition\<close>
  values, the two replies have the same status, the same body and the same headers
  apart from \<open>Content-Disposition\<close>.
\<close>

theorem filename_changes_disposition_only:
  assumes "verb rq1 = ''POST''" and "path rq1 = ''/pdf''"
    and "verb rq2 = ''POST''" and "path rq2 = ''/pdf''"
    and "json_parser env ''20mb'' (raw rq1) = Inr body1"
    and "json_parser env ''20mb'' (raw rq2) = Inr body2"
    and "\<forall>k. k \<noteq> ''filename'' \<longrightarrow>
           field (body_or_empty body1) k = field (body_or_empty body2) k"
  shows "snd (serve b env rq1) = snd (serve b env rq2) \<and>
         (\<forall>n1 n2.
            js_string (num_str env) (filename_of body1) = Some n1 \<and>
            header_check env ''Content-Disposition''
              (''inline; filename='' @ [CHR 0x22] @ n1 @ [CHR 0x22]) = None \<and>
            js_string (num_str env) (filename_of body2) = Some n2 \<and>
            header_check env ''Content-Disposition''
              (''inline; filename='' @ [CHR 0x22] @ n2 @ [CHR 0x22]) = None \<longrightarrow>
            same_but_disposition (fst (serve b env rq1)) (fst (serve b env rq2)))"
proof -
  let ?h1 = "case b of Server_js \<Rightarrow> post_pdf_server env body1
                     | Part_000 \<Rightarrow> post_pdf_part0 env body1
                     | Part_001 \<Rightarrow> post_pdf_part1 env body1"
  let ?h2 = "case b of Server_js \<Rightarrow> post_pdf_server env body2
                     | Part_000 \<Rightarrow> post_pdf_part0 env body2
                     | Part_001 \<Rightarrow> post_pdf_part1 env body2"
  have s: "serve b env rq1 = ?h1" "serve b env rq2 = ?h2"
    using assms(1-6) by (simp_all add: serve_pdf)
  have two: "?h1 = ?h2 \<or>
         (\<exists>r tr. ?h1 = (Handler (pdf_or_failure env ''PDF rendering failed'' (filename_of body1) r), tr) \<and>
                  ?h2 = (Handler (pdf_or_failure env ''PDF rendering failed'' (filename_of body2) r), tr))"
    using pdf_two_bodies [OF assms(7), of env] by (cases b) simp_all
  then show ?thesis
  proof
    assume "?h1 = ?h2"
    with s show ?thesis by (simp add: same_but_disposition_refl)
  next
    assume "\<exists>r tr. ?h1 = (Handler (pdf_or_failure env ''PDF rendering failed'' (filename_of body1) r), tr) \<and>
                  ?h2 = (Handler (pdf_or_failure env ''PDF rendering failed'' (filename_of body2) r), tr)"
    then obtain r tr where
      "?h1 = (Handler (pdf_or_failure env ''PDF rendering failed'' (filename_of body1) r), tr)"
      "?h2 = (Handler (pdf_or_failure env ''PDF rendering failed'' (filename_of body2) r), tr)"
      by blast
    with s have
      o: "serve b env rq1 = (Handler (pdf_or_failure env ''PDF rendering failed'' (filename_of body1) r), tr)"
         "serve b env rq2 = (Handler (pdf_or_failure env ''PDF rendering failed'' (filename_of body2) r), tr)"
      by simp_all
    show ?thesis
      unfolding o using pdf_or_failure_same [of env "filename_of body1" _ "filename_of body2"]
      by (simp add: disposition_def)
  qed
qed

text \<open>
  The claim as stated fails: the file name is copied into the header unescaped, and a
  header value the HTTP layer refuses (here one with a line feed) makes
  \<open>setHeader\<close> throw inside the \<open>try\<close>; the request that differs only in its file
  name is answered 500 instead of 200, after the PDF was printed.
\<close>

theorem filename_changes_disposition_only_counterexample:
  "fst (serve Server_js (runtime fine)
     (post ''/pdf'' [(''html'', JStr hello), (''filename'', JStr ''a.pdf'')])) =
   Handler \<lparr>status = 200,
      headers = [(''Content-Type'', ''application/pdf''),
                 (''Content-Disposition'', ''inline; filename='' @ [CHR 0x22] @ ''a.pdf'' @ [CHR 0x22])],
      content = Bytes ''%PDF-1.4''\<rparr> \<and>
   fst (serve Server_js (runtime fine)
     (post ''/pdf'' [(''html'', JStr hello), (''filename'', JStr (''a'' @ [CHR 0x0A] @ ''.pdf''))])) =
   Handler \<lparr>status = 500,
      headers = [(''Content-Type'', ''application/pdf'')],
      content = Json (JObj [(''error'', JStr ''PDF rendering failed''),
        (''details'', JStr (''Invalid character in header content ['' @ [CHR 0x22] @
                           ''Content-Disposition'' @ [CHR 0x22] @ '']''))])\<rparr>"
  by (simp add: run_simps)

text \<open>Two acceptable file names.\<close>

theorem filename_changes_disposition_only_witness:
  "snd (serve Part_000 (runtime fine)
          (post ''/pdf'' [(''html'', JStr hello), (''filename'', JStr ''a.pdf'')])) =
   snd (serve Part_000 (runtime fine)
          (post ''/pdf'' [(''html'', JStr hello), (''filename'', JStr ''b.pdf'')])) \<and>
   same_but_disposition
     (fst (serve Part_000 (runtime fine)
          (post ''/pdf'' [(''html'', JStr hello), (''filename'', JStr ''a.pdf'')])))
     (fst (serve Part_000 (runtime fine)
          (post ''/pdf'' [(''html'', JStr hello), (''filename'', JStr ''b.pdf'')])))"
proof -
  let ?a = "[(''html'', JStr hello), (''filename'', JStr ''a.pdf'')]"
  let ?b = "[(''html'', JStr hello), (''filename'', JStr ''b.pdf'')]"
  have v: "verb (post ''/pdf'' ?a) = ''POST''" "path (post ''/pdf'' ?a) = ''/pdf''"
          "verb (post ''/pdf'' ?b) = ''POST''" "path (post ''/pdf'' ?b) = ''/pdf''"
    by (simp_all add: post_def)
  have p: "json_parser (runtime fine) ''20mb'' (raw (post ''/pdf'' ?a)) = Inr (Some (JObj ?a))"
          "json_parser (runtime fine) ''20mb'' (raw (post ''/pdf'' ?b)) = Inr (Some (JObj ?b))"
    by (simp_all add: runtime_def post_def express_json_small)
  have k: "\<forall>k. k \<noteq> ''filename'' \<longrightarrow>
             field (body_or_empty (Some (JObj ?a))) k = field (body_or_empty (Some (JObj ?b))) k"
    by (simp add: body_or_empty_def)
  have n: "js_string (num_str (runtime fine)) (filename_of (Some (JObj ?a))) = Some ''a.pdf''"
          "js_string (num_str (runtime fine)) (filename_of (Some (JObj ?b))) = Some ''b.pdf''"
    by (simp_all add: filename_of_def body_or_empty_def)
  have h: "header_check (runtime fine) ''Content-Disposition''
             (''inline; filename='' @ [CHR 0x22] @ ''a.pdf'' @ [CHR 0x22]) = None"
          "header_check (runtime fine) ''Content-Disposition''
             (''inline; filename='' @ [CHR 0x22] @ ''b.pdf'' @ [CHR 0x22]) = None"
    by (simp_all add: runtime_def strict_header_check_def header_char_ok_def)
  from filename_changes_disposition_only [OF v p k, of Part_000] n h
  show ?thesis by blast
qed

end
